theory Spec2Isabelle
  imports Complex_Main "HOL-Library.Multiset" "HOL-Library.Product_Lexorder"
begin

section \<open>JavaScript values\<close>

text \<open>
  The grading engine (\<^verbatim>\<open>backend/grading/grading_engine.js\<close>) works on JSON payloads read
  from JSONB columns. A JSON value is modelled as a datatype; an object is the list of its
  own properties (JSONB stores every key once).

  JavaScript numbers are idealised: a finite number is a real and the arithmetic on finite
  numbers is exact, where the engine computes in binary floating point. The two agree on
  the whole numbers and on the sums of few numbers with two decimals that the handlers
  work with; they can differ in the last digit of a quotient, which shows where a result
  is compared with a bound it meets exactly, or is rounded when it lies exactly halfway.
  The three non-finite values that division by zero produces are kept as constructors of
  their own, so that \<^verbatim>\<open>0/0\<close> is NaN as in the source and not the \<open>0\<close> of HOL's
  total division.
\<close>

datatype json =
    JNull
  | JBool bool
  | JNum real
  | JStr string
  | JArr "json list"
  | JObj "(string \<times> json) list"

datatype jsnum = Fin real | PInf | NInf | NaN

datatype error = TypeError | StorageFailure

fun jadd :: "jsnum \<Rightarrow> jsnum \<Rightarrow> jsnum" where
  "jadd (Fin a) (Fin b) = Fin (a + b)"
| "jadd NaN _ = NaN"
| "jadd _ NaN = NaN"
| "jadd PInf NInf = NaN"
| "jadd NInf PInf = NaN"
| "jadd PInf _ = PInf"
| "jadd _ PInf = PInf"
| "jadd NInf _ = NInf"
| "jadd _ NInf = NInf"

instantiation jsnum :: comm_monoid_add
begin

definition zero_jsnum :: jsnum where
  "zero_jsnum = Fin 0"

definition plus_jsnum :: "jsnum \<Rightarrow> jsnum \<Rightarrow> jsnum" where
  "plus_jsnum = jadd"

instance
proof
  fix a b c :: jsnum
  show "a + b + c = a + (b + c)"
    unfolding plus_jsnum_def by (cases a; cases b; cases c) simp_all
  show "a + b = b + a"
    unfolding plus_jsnum_def by (cases a; cases b) simp_all
  show "0 + a = a"
    unfolding plus_jsnum_def zero_jsnum_def by (cases a) simp_all
qed

end

fun jneg :: "jsnum \<Rightarrow> jsnum" where
  "jneg (Fin a) = Fin (- a)"
| "jneg PInf = NInf"
| "jneg NInf = PInf"
| "jneg NaN = NaN"

definition jsub :: "jsnum \<Rightarrow> jsnum \<Rightarrow> jsnum" where
  "jsub a b = jadd a (jneg b)"

fun jmul :: "jsnum \<Rightarrow> jsnum \<Rightarrow> jsnum" where
  "jmul (Fin a) (Fin b) = Fin (a * b)"
| "jmul NaN _ = NaN"
| "jmul _ NaN = NaN"
| "jmul (Fin a) b = (if a = 0 then NaN else if 0 < a then b else jneg b)"
| "jmul a (Fin b) = (if b = 0 then NaN else if 0 < b then a else jneg a)"
| "jmul PInf b = b"
| "jmul NInf b = jneg b"

fun jdiv :: "jsnum \<Rightarrow> jsnum \<Rightarrow> jsnum" where
  "jdiv (Fin a) (Fin b) =
     (if b \<noteq> 0 then Fin (a / b)
      else if a = 0 then NaN else if 0 < a then PInf else NInf)"
| "jdiv NaN _ = NaN"
| "jdiv _ NaN = NaN"
| "jdiv (Fin a) _ = Fin 0"
| "jdiv a (Fin b) = (if 0 \<le> b then a else jneg a)"
| "jdiv _ _ = NaN"

fun jle :: "jsnum \<Rightarrow> jsnum \<Rightarrow> bool" where
  "jle (Fin a) (Fin b) = (a \<le> b)"
| "jle NaN _ = False"
| "jle _ NaN = False"
| "jle NInf _ = True"
| "jle _ PInf = True"
| "jle _ _ = False"

fun jlt :: "jsnum \<Rightarrow> jsnum \<Rightarrow> bool" where
  "jlt (Fin a) (Fin b) = (a < b)"
| "jlt NaN _ = False"
| "jlt _ NaN = False"
| "jlt NInf NInf = False"
| "jlt PInf _ = False"
| "jlt _ NInf = False"
| "jlt _ _ = True"

text \<open>\<^verbatim>\<open>Math.max(0, x)\<close>, \<^verbatim>\<open>Math.round(x)\<close> (halves go up) and \<^verbatim>\<open>Math.abs(x)\<close>.\<close>

fun jmax0 :: "jsnum \<Rightarrow> jsnum" where
  "jmax0 (Fin a) = Fin (max 0 a)"
| "jmax0 PInf = PInf"
| "jmax0 NInf = Fin 0"
| "jmax0 NaN = NaN"

fun jround :: "jsnum \<Rightarrow> jsnum" where
  "jround (Fin a) = Fin (of_int \<lfloor>a + 1 / 2\<rfloor>)"
| "jround x = x"

fun jabs :: "jsnum \<Rightarrow> jsnum" where
  "jabs (Fin a) = Fin \<bar>a\<bar>"
| "jabs NaN = NaN"
| "jabs _ = PInf"

text \<open>\<^verbatim>\<open>Math.round(score * 100) / 100\<close>: the rounding to two decimals of the strategies.\<close>

definition round2 :: "jsnum \<Rightarrow> jsnum" where
  "round2 score = jdiv (jround (jmul score (Fin 100))) (Fin 100)"

text \<open>Truthiness of a number (\<^verbatim>\<open>x || 0\<close>, \<^verbatim>\<open>x ? a : b\<close>) and of a JSON value (\<^verbatim>\<open>!x\<close>).\<close>

fun jtruthy :: "jsnum \<Rightarrow> bool" where
  "jtruthy (Fin a) = (a \<noteq> 0)"
| "jtruthy NaN = False"
| "jtruthy _ = True"

fun truthy :: "json \<Rightarrow> bool" where
  "truthy JNull = False"
| "truthy (JBool b) = b"
| "truthy (JNum x) = (x \<noteq> 0)"
| "truthy (JStr s) = (s \<noteq> [])"
| "truthy (JArr _) = True"
| "truthy (JObj _) = True"

text \<open>
  \<^verbatim>\<open>Array.prototype.includes\<close> and \<^verbatim>\<open>===\<close> compare primitives by value and
  objects by identity; two values parsed from storage are never the same object.
\<close>

fun strict_equal :: "json \<Rightarrow> json \<Rightarrow> bool" where
  "strict_equal (JArr _) _ = False"
| "strict_equal (JObj _) _ = False"
| "strict_equal a b = (a = b)"

definition array_includes :: "json list \<Rightarrow> json \<Rightarrow> bool" where
  "array_includes xs v = list_ex (\<lambda>x. strict_equal x v) xs"

text \<open>
  A string is a list of characters with codes below 256 (Latin-1). There
  \<^verbatim>\<open>toLowerCase\<close> maps the capital letters, \<open>A\<close> to \<open>Z\<close> and those with codes 192 to 222
  except the multiplication sign 215, to the code 32 above; \<^verbatim>\<open>trim\<close> removes the white
  space and the line terminators, which in this range are the codes 9 to 13, 32 and 160.
\<close>

definition to_lower_char :: "char \<Rightarrow> char" where
  "to_lower_char c =
     (let n = (of_char c :: nat)
      in if 65 \<le> n \<and> n \<le> 90 \<or> 192 \<le> n \<and> n \<le> 222 \<and> n \<noteq> 215 then char_of (n + 32) else c)"

definition toLowerCase :: "string \<Rightarrow> string" where
  "toLowerCase s = map to_lower_char s"

definition is_space :: "char \<Rightarrow> bool" where
  "is_space c = ((of_char c :: nat) \<in> {9, 10, 11, 12, 13, 32, 160})"

definition trim :: "string \<Rightarrow> string" where
  "trim s = rev (dropWhile is_space (rev (dropWhile is_space s)))"

subsection \<open>Numbers and strings\<close>

text \<open>
  The conversion of a number to a string, in positional notation (which JavaScript uses
  for magnitudes from 0.000001 up to 21 digits): the digits of the whole part and, if
  there is a fractional part, its digits, at most twenty of them. It is exact on whole
  numbers, the only numbers the engine ever turns into strings (the \<open>0\<close> that starts a
  sum, the counts of a feedback message, an array index).
\<close>

definition digit_char :: "nat \<Rightarrow> char" where
  "digit_char d = char_of (48 + d)"

fun show_nat :: "nat \<Rightarrow> string" where
  "show_nat n = (if n < 10 then [digit_char n] else show_nat (n div 10) @ [digit_char (n mod 10)])"

declare show_nat.simps [simp del]

fun fraction_digits :: "nat \<Rightarrow> real \<Rightarrow> string" where
  "fraction_digits 0 f = []"
| "fraction_digits (Suc n) f =
     (if f = 0 then []
      else digit_char (nat \<lfloor>f * 10\<rfloor>) # fraction_digits n (f * 10 - of_int \<lfloor>f * 10\<rfloor>))"

definition number_to_string :: "jsnum \<Rightarrow> string" where
  "number_to_string x =
     (case x of
        NaN \<Rightarrow> ''NaN''
      | PInf \<Rightarrow> ''Infinity''
      | NInf \<Rightarrow> ''-Infinity''
      | Fin r \<Rightarrow>
          (let whole = \<lfloor>\<bar>r\<bar>\<rfloor>; f = \<bar>r\<bar> - of_int whole
           in (if r < 0 then ''-'' else '''') @ show_nat (nat whole) @
              (if f = 0 then [] else CHR ''.'' # fraction_digits 20 f)))"

text \<open>
  The conversion of a string to a number (\<^verbatim>\<open>Number(s)\<close>, applied by \<^verbatim>\<open>-\<close>, \<^verbatim>\<open>*\<close>,
  \<^verbatim>\<open>/\<close> and the comparisons to a string operand): white space is trimmed; the empty
  string is 0; then comes a hexadecimal, octal or binary integer, or a decimal literal with
  an optional sign, fraction and exponent, or a signed \<^verbatim>\<open>Infinity\<close>; anything else is
  NaN. A string with two decimal points, such as \<^verbatim>\<open>010.008.00\<close>, is NaN.
\<close>

definition digit_value :: "char \<Rightarrow> nat" where
  "digit_value c =
     (let n = (of_char c :: nat)
      in if 48 \<le> n \<and> n \<le> 57 then n - 48
         else if 97 \<le> n \<and> n \<le> 102 then n - 87
         else if 65 \<le> n \<and> n \<le> 70 then n - 55
         else 16)"

definition is_digit :: "char \<Rightarrow> bool" where
  "is_digit c = (digit_value c < 10)"

definition digits_value :: "nat \<Rightarrow> string \<Rightarrow> nat" where
  "digits_value base ds = foldl (\<lambda>n c. n * base + digit_value c) 0 ds"

definition radix_literal :: "nat \<Rightarrow> string \<Rightarrow> jsnum" where
  "radix_literal base ds =
     (if ds \<noteq> [] \<and> list_all (\<lambda>c. digit_value c < base) ds
      then Fin (of_nat (digits_value base ds)) else NaN)"

definition split_sign :: "string \<Rightarrow> bool \<times> string" where
  "split_sign s =
     (case s of
        [] \<Rightarrow> (False, [])
      | c # rest \<Rightarrow>
          if c = CHR ''-'' then (True, rest)
          else if c = CHR ''+'' then (False, rest)
          else (False, s))"

definition exponent_part :: "string \<Rightarrow> int option" where
  "exponent_part s =
     (case s of
        [] \<Rightarrow> Some 0
      | c # rest \<Rightarrow>
          if c = CHR ''e'' \<or> c = CHR ''E''
          then (case split_sign rest of
                  (neg, ds) \<Rightarrow>
                    if ds \<noteq> [] \<and> list_all is_digit ds
                    then Some (if neg then - int (digits_value 10 ds) else int (digits_value 10 ds))
                    else None)
          else None)"

definition decimal_literal :: "string \<Rightarrow> real option" where
  "decimal_literal s =
     (let whole = takeWhile is_digit s;
          r1 = dropWhile is_digit s;
          dot = (r1 \<noteq> [] \<and> hd r1 = CHR ''.'');
          frac = (if dot then takeWhile is_digit (tl r1) else []);
          r2 = (if dot then dropWhile is_digit (tl r1) else r1)
      in if whole = [] \<and> frac = [] then None
         else (case exponent_part r2 of
                 None \<Rightarrow> None
               | Some e \<Rightarrow>
                   (let m = of_nat (digits_value 10 whole) +
                            of_nat (digits_value 10 frac) / 10 ^ length frac
                    in Some (if 0 \<le> e then m * 10 ^ nat e else m / 10 ^ nat (- e)))))"

definition string_to_number :: "string \<Rightarrow> jsnum" where
  "string_to_number str =
     (let s = trim str; p = take 2 s
      in if s = [] then Fin 0
         else if p = ''0x'' \<or> p = ''0X'' then radix_literal 16 (drop 2 s)
         else if p = ''0o'' \<or> p = ''0O'' then radix_literal 8 (drop 2 s)
         else if p = ''0b'' \<or> p = ''0B'' then radix_literal 2 (drop 2 s)
         else (case split_sign s of
                 (neg, unsigned) \<Rightarrow>
                   if unsigned = ''Infinity'' then (if neg then NInf else PInf)
                   else (case decimal_literal unsigned of
                           None \<Rightarrow> NaN
                         | Some v \<Rightarrow> Fin (if neg then - v else v))))"

text \<open>
  The conversions of a parsed JSON value: to a string (an array joins its elements with
  commas, \<^verbatim>\<open>null\<close> elements left empty) and to a number.
\<close>

definition join_with :: "string \<Rightarrow> string list \<Rightarrow> string" where
  "join_with sep ws = (case ws of [] \<Rightarrow> [] | w # rest \<Rightarrow> w @ concat (map (\<lambda>x. sep @ x) rest))"

fun to_string :: "json \<Rightarrow> string" where
  "to_string JNull = ''null''"
| "to_string (JBool b) = (if b then ''true'' else ''false'')"
| "to_string (JNum x) = number_to_string (Fin x)"
| "to_string (JStr s) = s"
| "to_string (JArr xs) = join_with '','' (map (\<lambda>x. if x = JNull then [] else to_string x) xs)"
| "to_string (JObj kvs) = ''[object Object]''"

fun to_number :: "json \<Rightarrow> jsnum" where
  "to_number JNull = Fin 0"
| "to_number (JBool b) = (if b then Fin 1 else Fin 0)"
| "to_number (JNum x) = Fin x"
| "to_number (JStr s) = string_to_number s"
| "to_number v = string_to_number (to_string v)"

text \<open>
  A value that is a number or a string, and the operator \<^verbatim>\<open>+\<close> on such values: two
  numbers are added; as soon as one operand is a string, both are turned into strings and
  concatenated.
\<close>

datatype jsval = Num jsnum | Str string

fun val_string :: "jsval \<Rightarrow> string" where
  "val_string (Num x) = number_to_string x"
| "val_string (Str s) = s"

fun val_number :: "jsval \<Rightarrow> jsnum" where
  "val_number (Num x) = x"
| "val_number (Str s) = string_to_number s"

fun js_plus :: "jsval \<Rightarrow> jsval \<Rightarrow> jsval" where
  "js_plus (Num x) (Num y) = Num (x + y)"
| "js_plus a b = Str (val_string a @ val_string b)"

subsection \<open>Properties of a value\<close>

text \<open>
  The runtime and the external libraries are parameters of the model: the tokenizer and
  the stemmer of \<^verbatim>\<open>natural\<close>, the scorer of \<^verbatim>\<open>string-similarity\<close>, the built-in
  \<^verbatim>\<open>parseFloat\<close>, and the names that the prototype of a kind of value defines
  (\<^verbatim>\<open>push\<close> for arrays, \<^verbatim>\<open>charAt\<close> for strings, ...), which depend on the version of
  the runtime.
\<close>

record lib =
  tokenize :: "string \<Rightarrow> string list"
  stem :: "string \<Rightarrow> string"
  compareTwoStrings :: "string \<Rightarrow> string \<Rightarrow> real"
  parseFloat :: "json \<Rightarrow> jsnum"
  prototype_has :: "json \<Rightarrow> string \<Rightarrow> bool"

text \<open>
  \<^verbatim>\<open>Object.entries(v)\<close>: the own enumerable properties. An array has its indices as
  keys, a string its characters; numbers and booleans have none. Arrays and strings also
  own \<^verbatim>\<open>length\<close>, which is not enumerable.
\<close>

definition object_entries :: "json \<Rightarrow> (string \<times> json) list" where
  "object_entries v =
     (case v of
        JObj kvs \<Rightarrow> kvs
      | JArr xs \<Rightarrow> zip (map show_nat [0..<length xs]) xs
      | JStr s \<Rightarrow> zip (map show_nat [0..<length s]) (map (\<lambda>c. JStr [c]) s)
      | _ \<Rightarrow> [])"

definition own_property :: "json \<Rightarrow> string \<Rightarrow> json option" where
  "own_property v key =
     (case v of
        JArr xs \<Rightarrow>
          if key = ''length'' then Some (JNum (of_nat (length xs)))
          else map_of (object_entries v) key
      | JStr s \<Rightarrow>
          if key = ''length'' then Some (JNum (of_nat (length s)))
          else map_of (object_entries v) key
      | _ \<Rightarrow> map_of (object_entries v) key)"

text \<open>
  \<^verbatim>\<open>v[key]\<close> reads an own property if there is one; otherwise a member that the
  prototype chain defines, which is a built-in function or object and never a parsed
  value; otherwise it is \<^verbatim>\<open>undefined\<close>. A built-in is truthy, is not a string and is
  not \<^verbatim>\<open>===\<close> to any parsed value. Every chain ends in \<^verbatim>\<open>Object.prototype\<close>, whose
  members are listed; the prototype of the kind of value comes before it. (Reading a
  property of \<^verbatim>\<open>null\<close> throws; the strategies read properties of truthy values only.)
\<close>

datatype property = Undefined | Data json | Builtin

definition object_prototype :: "string list" where
  "object_prototype =
     [''constructor'', ''hasOwnProperty'', ''isPrototypeOf'', ''propertyIsEnumerable'',
      ''toLocaleString'', ''toString'', ''valueOf'', ''__proto__'', ''__defineGetter__'',
      ''__defineSetter__'', ''__lookupGetter__'', ''__lookupSetter__'']"

definition js_get :: "lib \<Rightarrow> json \<Rightarrow> string \<Rightarrow> property" where
  "js_get l v key =
     (case own_property v key of
        Some x \<Rightarrow> Data x
      | None \<Rightarrow>
          if prototype_has l v key \<or> List.member object_prototype key then Builtin
          else Undefined)"

fun property_truthy :: "property \<Rightarrow> bool" where
  "property_truthy Undefined = False"
| "property_truthy (Data v) = truthy v"
| "property_truthy Builtin = True"

text \<open>
  \<^verbatim>\<open>v.length\<close> used as a number (by \<^verbatim>\<open>-\<close> and \<^verbatim>\<open>/\<close>): the own property converted
  to a number; \<^verbatim>\<open>undefined\<close> turns the arithmetic into NaN.
\<close>

definition js_length :: "json \<Rightarrow> jsnum" where
  "js_length v = (case own_property v ''length'' of None \<Rightarrow> NaN | Some x \<Rightarrow> to_number x)"

section \<open>Questions and grading strategies\<close>

text \<open>
  The grading hints of \<^verbatim>\<open>questions.metadata\<close>, read as typed fields: a flag is a
  Boolean (absent is \<^verbatim>\<open>false\<close>), a threshold an optional number.
\<close>

record metadata =
  requiresManualGrading :: bool
  caseSensitive :: bool
  alwaysReview :: bool
  reviewThreshold :: "real option"
  similarityThreshold :: "real option"
  mtype :: "string option"
  tolerance :: "real option"
  reviewIncorrect :: bool

definition no_metadata :: metadata where
  "no_metadata =
     \<lparr>requiresManualGrading = False, caseSensitive = False, alwaysReview = False,
      reviewThreshold = None, similarityThreshold = None, mtype = None, tolerance = None,
      reviewIncorrect = False\<rparr>"

text \<open>
  A question object as the strategies receive it: one row of the question query of
  \<^verbatim>\<open>gradeSubmission\<close>, the question joined with its type and with the student's response.
\<close>

record question =
  question_id :: nat
  type_id :: "nat option"
  content :: string
  points :: int
  correct_answer :: json
  options :: json
  rubric :: json
  question_type :: string
  grading_method :: string
  response_id :: "nat option"
  response_data :: json
  metadata :: "metadata option"

record verdict =
  score :: jsnum
  feedback :: string
  needsManualGrading :: bool

definition points_of :: "'a question_scheme \<Rightarrow> jsnum" where
  "points_of question = Fin (of_int (points question))"

definition metadata_of :: "'a question_scheme \<Rightarrow> metadata" where
  "metadata_of question = (case metadata question of None \<Rightarrow> no_metadata | Some m \<Rightarrow> m)"

text \<open>
  \<^verbatim>\<open>JSON.stringify(a) === JSON.stringify(b)\<close>: the rendering is injective on parsed JSON,
  so the test is equality of the two values.
\<close>

definition gradeMultipleChoice :: "'a question_scheme \<Rightarrow> verdict" where
  "gradeMultipleChoice question =
     (let correctAnswer = correct_answer question;
          studentAnswer = response_data question;
          isCorrect = (correctAnswer = studentAnswer)
      in \<lparr>score = (if isCorrect then points_of question else Fin 0),
          feedback = (if isCorrect then ''Correct answer'' else ''Incorrect answer''),
          needsManualGrading = False\<rparr>)"

definition gradeMultipleAnswer :: "'a question_scheme \<Rightarrow> verdict" where
  "gradeMultipleAnswer question =
     (case (correct_answer question, response_data question) of
        (JArr correctAnswers, JArr studentAnswers) \<Rightarrow>
          (let correctSelections = length (filter (array_includes correctAnswers) studentAnswers);
               incorrectSelections =
                 length (filter (\<lambda>answer. \<not> array_includes correctAnswers answer) studentAnswers);
               missedCorrect =
                 length (filter (\<lambda>answer. \<not> array_includes studentAnswers answer) correctAnswers);
               totalOptions =
                 (if truthy (options question) then js_length (options question)
                  else Fin (of_nat (length correctAnswers + 2)));
               totalDecisions = totalOptions;
               correctDecisions =
                 jsub (jsub totalOptions (Fin (of_nat incorrectSelections)))
                   (Fin (of_nat missedCorrect));
               score = jmax0 (jmul (jdiv correctDecisions totalDecisions) (points_of question));
               roundedScore = round2 score
           in \<lparr>score = roundedScore,
               feedback =
                 (if correctSelections = length correctAnswers \<and> incorrectSelections = 0
                  then ''All correct options selected''
                  else if 0 < incorrectSelections \<and> 0 < missedCorrect
                  then ''Some incorrect options selected and some correct options missed''
                  else if 0 < incorrectSelections then ''Some incorrect options selected''
                  else if 0 < missedCorrect then ''Some correct options missed''
                  else ''''),
               needsManualGrading = False\<rparr>)
      | _ \<Rightarrow> \<lparr>score = Fin 0, feedback = ''Invalid answer format'', needsManualGrading = False\<rparr>)"

definition gradeMatching :: "lib \<Rightarrow> 'a question_scheme \<Rightarrow> verdict" where
  "gradeMatching l question =
     (let correctMatches = correct_answer question;
          studentMatches = response_data question
      in if \<not> truthy correctMatches \<or> \<not> truthy studentMatches
         then \<lparr>score = Fin 0, feedback = ''Invalid answer format'', needsManualGrading = False\<rparr>
         else
           (let totalMatches = length (object_entries correctMatches);
                correctCount =
                  length (filter
                    (\<lambda>(key, val). case js_get l correctMatches key of
                        Data c \<Rightarrow> strict_equal c val | _ \<Rightarrow> False)
                    (object_entries studentMatches));
                score =
                  jmul (jdiv (Fin (of_nat correctCount)) (Fin (of_nat totalMatches)))
                    (points_of question);
                roundedScore = round2 score
            in \<lparr>score = roundedScore,
                feedback =
                  show_nat correctCount @ '' out of '' @ show_nat totalMatches @
                  '' matches correct'',
                needsManualGrading = False\<rparr>))"

text \<open>
  \<^verbatim>\<open>compareAnswers\<close> calls \<^verbatim>\<open>toLowerCase\<close> and \<^verbatim>\<open>trim\<close> on both arguments: on a
  value that is not a string (a number, an object, a built-in) the call throws a
  TypeError. The student's answer is what \<^verbatim>\<open>studentAnswers[blankId]\<close> has read.
\<close>

definition compareAnswers :: "property \<Rightarrow> json \<Rightarrow> bool \<Rightarrow> error + bool" where
  "compareAnswers studentAnswer correctAnswer caseSens =
     (case (studentAnswer, correctAnswer) of
        (Data (JStr s), JStr c) \<Rightarrow>
          (let s1 = (if \<not> caseSens then toLowerCase s else s);
               c1 = (if \<not> caseSens then toLowerCase c else c)
           in Inr (trim s1 = trim c1))
      | _ \<Rightarrow> Inl TypeError)"

text \<open>\<^verbatim>\<open>correctAnswer.some(answer => compareAnswers(...))\<close> stops at the first match.\<close>

fun some_answer :: "property \<Rightarrow> json list \<Rightarrow> bool \<Rightarrow> error + bool" where
  "some_answer studentAnswer [] caseSens = Inr False"
| "some_answer studentAnswer (answer # answers) caseSens =
     (case compareAnswers studentAnswer answer caseSens of
        Inl e \<Rightarrow> Inl e
      | Inr isCorrect \<Rightarrow>
          if isCorrect then Inr True else some_answer studentAnswer answers caseSens)"

text \<open>
  The loop over the blanks of \<^verbatim>\<open>gradeFillInBlank\<close>, with its counter
  \<^verbatim>\<open>correctCount\<close> (the list \<^verbatim>\<open>incorrectAnswers\<close> it also fills is never read).
\<close>

fun count_correct ::
  "lib \<Rightarrow> json \<Rightarrow> bool \<Rightarrow> (string \<times> json) list \<Rightarrow> nat \<Rightarrow> error + nat" where
  "count_correct l studentAnswers caseSens [] correctCount = Inr correctCount"
| "count_correct l studentAnswers caseSens ((blankId, correctAnswer) # rest) correctCount =
     (let studentAnswer = js_get l studentAnswers blankId
      in if \<not> property_truthy studentAnswer
         then count_correct l studentAnswers caseSens rest correctCount
         else
           (case (case correctAnswer of
                    JArr answers \<Rightarrow> some_answer studentAnswer answers caseSens
                  | _ \<Rightarrow> compareAnswers studentAnswer correctAnswer caseSens) of
              Inl e \<Rightarrow> Inl e
            | Inr isCorrect \<Rightarrow>
                count_correct l studentAnswers caseSens rest
                  (if isCorrect then Suc correctCount else correctCount)))"

definition gradeFillInBlank :: "lib \<Rightarrow> 'a question_scheme \<Rightarrow> error + verdict" where
  "gradeFillInBlank l question =
     (let correctAnswers = correct_answer question;
          studentAnswers = response_data question
      in if \<not> truthy correctAnswers \<or> \<not> truthy studentAnswers
         then Inr \<lparr>score = Fin 0, feedback = ''Invalid answer format'',
                   needsManualGrading = False\<rparr>
         else
           (let metadata = metadata_of question
            in if requiresManualGrading metadata
               then Inr \<lparr>score = Fin 0, feedback = ''This response requires manual grading'',
                         needsManualGrading = True\<rparr>
               else
                 (let totalBlanks = length (object_entries correctAnswers)
                  in case count_correct l studentAnswers (caseSensitive metadata)
                            (object_entries correctAnswers) 0 of
                       Inl e \<Rightarrow> Inl e
                     | Inr correctCount \<Rightarrow>
                         (let ratio = jdiv (Fin (of_nat correctCount)) (Fin (of_nat totalBlanks));
                              score = jmul ratio (points_of question);
                              roundedScore = round2 score
                          in Inr \<lparr>score = roundedScore,
                                  feedback =
                                    (if correctCount = totalBlanks then ''All answers correct''
                                     else if correctCount = 0 then ''All answers incorrect''
                                     else show_nat correctCount @ '' out of '' @
                                          show_nat totalBlanks @ '' answers correct''),
                                  needsManualGrading =
                                    (alwaysReview metadata \<or>
                                     (case reviewThreshold metadata of
                                        None \<Rightarrow> False
                                      | Some t \<Rightarrow> t \<noteq> 0 \<and> jlt ratio (Fin t)))\<rparr>))))"

definition join_words :: "string list \<Rightarrow> string" where
  "join_words ws = (case ws of [] \<Rightarrow> [] | w # rest \<Rightarrow> w @ concat (map (\<lambda>x. CHR '' '' # x) rest))"

definition normalise_text :: "lib \<Rightarrow> string \<Rightarrow> string" where
  "normalise_text l text = join_words (map (stem l) (tokenize l (toLowerCase text)))"

definition calculateTextSimilarity :: "lib \<Rightarrow> json \<Rightarrow> json \<Rightarrow> error + real" where
  "calculateTextSimilarity l text1 text2 =
     (case (text1, text2) of
        (JStr t1, JStr t2) \<Rightarrow>
          Inr (compareTwoStrings l (normalise_text l t1) (normalise_text l t2))
      | _ \<Rightarrow> Inl TypeError)"

definition threshold_of :: "metadata \<Rightarrow> real" where
  "threshold_of m =
     (case similarityThreshold m of None \<Rightarrow> 0.8 | Some t \<Rightarrow> if t \<noteq> 0 then t else 0.8)"

definition gradeShortAnswer :: "lib \<Rightarrow> 'a question_scheme \<Rightarrow> error + verdict" where
  "gradeShortAnswer l question =
     (let correctAnswer = correct_answer question;
          studentAnswer = response_data question
      in if \<not> truthy correctAnswer \<or> \<not> truthy studentAnswer
         then Inr \<lparr>score = Fin 0, feedback = ''Invalid answer format'',
                   needsManualGrading = False\<rparr>
         else
           (let metadata = metadata_of question
            in if requiresManualGrading metadata
               then Inr \<lparr>score = Fin 0, feedback = ''This response requires manual grading'',
                         needsManualGrading = True\<rparr>
               else
                 (case calculateTextSimilarity l studentAnswer correctAnswer of
                    Inl e \<Rightarrow> Inl e
                  | Inr similarity \<Rightarrow>
                      (let threshold = threshold_of metadata
                       in if threshold \<le> similarity
                          then Inr \<lparr>score = points_of question,
                                    feedback = ''Answer matches expected response'',
                                    needsManualGrading = (False \<or> alwaysReview metadata)\<rparr>
                          else if threshold * 0.7 \<le> similarity
                          then Inr \<lparr>score = jmul (points_of question) (Fin 0.5),
                                    feedback = ''Answer partially matches expected response'',
                                    needsManualGrading = (True \<or> alwaysReview metadata)\<rparr>
                          else Inr \<lparr>score = Fin 0,
                                    feedback = ''Answer does not match expected response'',
                                    needsManualGrading = (True \<or> alwaysReview metadata)\<rparr>))))"

definition gradeComputational :: "lib \<Rightarrow> 'a question_scheme \<Rightarrow> verdict" where
  "gradeComputational l question =
     (let correctAnswer = correct_answer question;
          studentAnswer = response_data question;
          metadata = metadata_of question
      in if \<not> truthy correctAnswer \<or> \<not> truthy studentAnswer
         then \<lparr>score = Fin 0, feedback = ''Invalid answer format'', needsManualGrading = False\<rparr>
         else if requiresManualGrading metadata
         then \<lparr>score = Fin 0, feedback = ''This response requires manual grading'',
                needsManualGrading = True\<rparr>
         else if mtype metadata = Some ''numeric''
         then
           (let tol = (case tolerance metadata of None \<Rightarrow> 0 | Some t \<Rightarrow> t);
                isCorrect =
                  jle (jabs (jsub (parseFloat l studentAnswer) (parseFloat l correctAnswer)))
                    (Fin tol)
            in \<lparr>score = (if isCorrect then points_of question else Fin 0),
                feedback = (if isCorrect then ''Correct answer'' else ''Incorrect answer''),
                needsManualGrading = (\<not> isCorrect \<and> reviewIncorrect metadata)\<rparr>)
         else if mtype metadata = Some ''formula''
         then \<lparr>score = Fin 0, feedback = ''Formula evaluation requires manual grading'',
                needsManualGrading = True\<rparr>
         else \<lparr>score = Fin 0,
                feedback = ''This computational question requires manual grading'',
                needsManualGrading = True\<rparr>)"

definition gradeCoding :: "'a question_scheme \<Rightarrow> verdict" where
  "gradeCoding question =
     \<lparr>score = Fin 0,
      feedback = ''Code evaluation requires manual grading or test case execution'',
      needsManualGrading = True\<rparr>"

text \<open>
  The \<^verbatim>\<open>switch\<close> on \<^verbatim>\<open>question.question_type\<close> in the loop of \<^verbatim>\<open>gradeSubmission\<close>.
  The three closed-form strategies return no flag, so \<^verbatim>\<open>needsManualGrading\<close> keeps its
  initial \<^verbatim>\<open>false\<close>; the default branch keeps the initial score 0.
\<close>

definition grade_by_type :: "lib \<Rightarrow> 'a question_scheme \<Rightarrow> error + verdict" where
  "grade_by_type l question =
     (let t = question_type question
      in if t = ''true_false'' \<or> t = ''multiple_choice'' then Inr (gradeMultipleChoice question)
         else if t = ''multiple_answer'' then Inr (gradeMultipleAnswer question)
         else if t = ''matching'' then Inr (gradeMatching l question)
         else if t = ''fill_in_blank'' then gradeFillInBlank l question
         else if t = ''short_answer'' then gradeShortAnswer l question
         else if t = ''computational'' then Inr (gradeComputational l question)
         else if t = ''coding'' then Inr (gradeCoding question)
         else Inr \<lparr>score = Fin 0, feedback = ''This question type requires manual grading'',
                   needsManualGrading = True\<rparr>)"

section \<open>The database\<close>

text \<open>
  The tables of the PostgreSQL schema that the grading engine reads or writes, each a list
  of rows; the fields carry the alias the queries give the table. Only the columns the
  engine touches are kept. A nullable column is an \<open>option\<close> (\<open>None\<close> is NULL), and a
  comparison with NULL never holds.

  The scores and the final grade are \<^verbatim>\<open>DECIMAL(5,2)\<close> columns. Such a column holds a
  multiple of 0.01 below 1000 in magnitude, or NaN. A value written to it is rounded to
  two decimals, halves away from zero; the statement is refused when the rounded value
  does not fit, or is infinite. The driver (\<^verbatim>\<open>pg\<close>, with no type parser installed)
  hands a numeric column back as the string that PostgreSQL prints, with two decimals,
  and an \<^verbatim>\<open>INTEGER\<close> column as a number.
\<close>

type_synonym numeric = jsnum

definition round_half_away :: "real \<Rightarrow> int" where
  "round_half_away x = (if 0 \<le> x then \<lfloor>x + 1 / 2\<rfloor> else - \<lfloor>- x + 1 / 2\<rfloor>)"

definition numeric_5_2 :: "jsnum \<Rightarrow> error + numeric" where
  "numeric_5_2 x =
     (case x of
        NaN \<Rightarrow> Inr NaN
      | Fin r \<Rightarrow>
          (let k = round_half_away (r * 100)
           in if \<bar>k\<bar> < 100000 then Inr (Fin (of_int k / 100)) else Inl StorageFailure)
      | _ \<Rightarrow> Inl StorageFailure)"

definition two_digits :: "nat \<Rightarrow> string" where
  "two_digits n = [digit_char (n div 10 mod 10), digit_char (n mod 10)]"

definition numeric_out :: "numeric \<Rightarrow> string" where
  "numeric_out x =
     (case x of
        NaN \<Rightarrow> ''NaN''
      | PInf \<Rightarrow> ''Infinity''
      | NInf \<Rightarrow> ''-Infinity''
      | Fin r \<Rightarrow>
          (let k = round_half_away (r * 100); a = nat \<bar>k\<bar>
           in (if k < 0 then ''-'' else '''') @ show_nat (a div 100) @ ''.'' @
              two_digits (a mod 100)))"

datatype status = Draft | Submitted | Late | Graded

record submission =
  s_submission_id :: nat
  s_assignment_id :: "nat option"
  s_student_id :: "nat option"
  s_status :: status
  s_total_score :: "numeric option"
  s_graded_at :: "nat option"
  s_graded_by :: "nat option"

record assignment =
  a_assignment_id :: nat
  a_category_id :: "nat option"
  a_title :: string
  a_total_points :: int
  a_is_published :: bool

record question_rec =
  q_question_id :: nat
  q_assignment_id :: "nat option"
  q_type_id :: "nat option"
  q_content :: string
  q_points :: int
  q_options :: json
  q_correct_answer :: json
  q_rubric :: json
  q_metadata :: "metadata option"
  q_order_num :: "int option"

record question_type_rec =
  qt_type_id :: nat
  qt_name :: string
  qt_grading_method :: string

record question_response =
  qr_response_id :: nat
  qr_submission_id :: "nat option"
  qr_question_id :: "nat option"
  qr_response_data :: json
  qr_score :: "numeric option"
  qr_feedback :: "string option"
  qr_graded_at :: "nat option"
  qr_graded_by :: "nat option"

record assignment_category =
  ac_category_id :: nat
  ac_course_id :: "nat option"
  ac_name :: string
  ac_weight :: real

record grading_scale =
  gs_scale_id :: nat
  gs_name :: string

record course_grading_scale =
  cgs_course_id :: nat
  cgs_scale_id :: nat

record grading_scale_threshold =
  gst_scale_id :: "nat option"
  gst_grade :: string
  gst_min_score :: real
  gst_max_score :: real

record enrollment =
  e_student_id :: "nat option"
  e_course_id :: "nat option"
  e_final_grade :: "numeric option"

record db =
  submissions :: "submission list"
  assignments :: "assignment list"
  questions :: "question_rec list"
  question_types :: "question_type_rec list"
  question_responses :: "question_response list"
  assignment_categories :: "assignment_category list"
  grading_scales :: "grading_scale list"
  course_grading_scales :: "course_grading_scale list"
  grading_scale_thresholds :: "grading_scale_threshold list"
  enrollments :: "enrollment list"

text \<open>
  The connection pool: the tables, the server's clock (\<^verbatim>\<open>CURRENT_TIMESTAMP\<close>) and, to
  model a failing persistence layer, the number of statements the store will still take
  (\<open>None\<close>: it never fails). \<^verbatim>\<open>pool.query\<close> runs one statement, which commits on its
  own: no handler of the engine opens a transaction. A statement that the store does not
  take, or that it refuses because a value does not fit its column, throws and leaves the
  tables as they are.
\<close>

record conn =
  tables :: db
  clock :: nat
  faults :: "nat option"

definition pool_query :: "(db \<Rightarrow> error + 'a \<times> db) \<Rightarrow> conn \<Rightarrow> (error + 'a) \<times> conn" where
  "pool_query stmt c =
     (case faults c of
        None \<Rightarrow>
          (case stmt (tables c) of
             Inl e \<Rightarrow> (Inl e, c)
           | Inr (r, d) \<Rightarrow> (Inr r, c\<lparr>tables := d\<rparr>))
      | Some 0 \<Rightarrow> (Inl StorageFailure, c)
      | Some (Suc n) \<Rightarrow>
          (case stmt (tables c) of
             Inl e \<Rightarrow> (Inl e, c\<lparr>faults := Some n\<rparr>)
           | Inr (r, d) \<Rightarrow> (Inr r, c\<lparr>tables := d, faults := Some n\<rparr>)))"

definition sql_select :: "(db \<Rightarrow> 'a) \<Rightarrow> db \<Rightarrow> error + 'a \<times> db" where
  "sql_select q d = Inr (q d, d)"

definition sql_update :: "(db \<Rightarrow> error + db) \<Rightarrow> db \<Rightarrow> error + unit \<times> db" where
  "sql_update u d = (case u d of Inl e \<Rightarrow> Inl e | Inr d' \<Rightarrow> Inr ((), d'))"

text \<open>The rows a \<^verbatim>\<open>LEFT JOIN\<close> pairs with one left row: the matches, or one NULL row.\<close>

definition left_join :: "'a list \<Rightarrow> 'a option list" where
  "left_join matches = (if matches = [] then [None] else map Some matches)"

text \<open>
  A response carries a status code and a body: a message, or the object that the handler
  hands to \<^verbatim>\<open>JSON.stringify\<close> (which renders a NaN in it as \<^verbatim>\<open>null\<close>).
\<close>

datatype 'a body = Message string | Payload 'a

record 'a response =
  statusCode :: nat
  body :: "'a body"

abbreviation internal_server_error :: "'a response" where
  "internal_server_error \<equiv> \<lparr>statusCode = 500, body = Message ''Internal server error''\<rparr>"

section \<open>Grading a submission\<close>

record submission_key =
  submission_id :: nat
  assignment_id :: "nat option"
  student_id :: "nat option"

record submission_row = submission_key +
  status :: status
  total_points :: int

text \<open>
  The first query of \<^verbatim>\<open>gradeSubmission\<close>: the submission joined with its assignment.
\<close>

definition submission_query :: "nat \<Rightarrow> db \<Rightarrow> submission_row list" where
  "submission_query submissionId d =
     [\<lparr>submission_id = s_submission_id s, assignment_id = s_assignment_id s,
       student_id = s_student_id s, status = s_status s,
       total_points = a_total_points a\<rparr>.
      s \<leftarrow> submissions d, a \<leftarrow> assignments d,
      s_assignment_id s = Some (a_assignment_id a),
      s_submission_id s = submissionId]"

text \<open>
  The second query: every question of the assignment that has a type, with the response
  of this submission if there is one, in the order of \<^verbatim>\<open>order_num\<close> (NULL last). The
  select list does not name \<^verbatim>\<open>q.metadata\<close>, so the rows carry no metadata.
\<close>

definition order_key :: "question_rec \<Rightarrow> nat \<times> int" where
  "order_key q = (case q_order_num q of None \<Rightarrow> (1, 0) | Some n \<Rightarrow> (0, n))"

definition responses_to :: "nat \<Rightarrow> nat \<Rightarrow> db \<Rightarrow> question_response list" where
  "responses_to submissionId questionId d =
     filter (\<lambda>qr. qr_question_id qr = Some questionId \<and> qr_submission_id qr = Some submissionId)
       (question_responses d)"

definition question_row :: "question_rec \<Rightarrow> question_type_rec \<Rightarrow> question_response option \<Rightarrow> question" where
  "question_row q qt r =
     \<lparr>question_id = q_question_id q, type_id = q_type_id q, content = q_content q,
      points = q_points q, correct_answer = q_correct_answer q, options = q_options q,
      rubric = q_rubric q, question_type = qt_name qt, grading_method = qt_grading_method qt,
      response_id = map_option qr_response_id r,
      response_data = (case r of None \<Rightarrow> JNull | Some qr \<Rightarrow> qr_response_data qr),
      metadata = None\<rparr>"

definition questions_query :: "nat \<Rightarrow> nat option \<Rightarrow> db \<Rightarrow> question list" where
  "questions_query submissionId assignmentId d =
     [question_row q qt r.
      q \<leftarrow> sort_key order_key (questions d),
      assignmentId \<noteq> None \<and> q_assignment_id q = assignmentId,
      qt \<leftarrow> question_types d, q_type_id q = Some (qt_type_id qt),
      r \<leftarrow> left_join (responses_to submissionId (q_question_id q) d)]"

text \<open>
  The two updates of \<^verbatim>\<open>gradeSubmission\<close>. The score and the total are numbers, which
  the statement casts to the type of the column.
\<close>

definition update_response_score ::
  "jsnum \<Rightarrow> string \<Rightarrow> nat \<Rightarrow> nat \<Rightarrow> db \<Rightarrow> error + db" where
  "update_response_score sc fb now responseId d =
     (case numeric_5_2 sc of
        Inl e \<Rightarrow> Inl e
      | Inr v \<Rightarrow>
          Inr (d\<lparr>question_responses :=
                 map (\<lambda>qr. if qr_response_id qr = responseId
                            then qr\<lparr>qr_score := Some v, qr_feedback := Some fb,
                                    qr_graded_at := Some now\<rparr>
                            else qr)
                   (question_responses d)\<rparr>))"

definition finalize_submission :: "jsnum \<Rightarrow> nat \<Rightarrow> nat \<Rightarrow> db \<Rightarrow> error + db" where
  "finalize_submission totalScore now submissionId d =
     (case numeric_5_2 totalScore of
        Inl e \<Rightarrow> Inl e
      | Inr v \<Rightarrow>
          Inr (d\<lparr>submissions :=
                 map (\<lambda>s. if s_submission_id s = submissionId
                           then s\<lparr>s_status := Graded, s_total_score := Some v,
                                  s_graded_at := Some now\<rparr>
                           else s)
                   (submissions d)\<rparr>))"

record grading_result = verdict +
  questionId :: nat
  responseId :: "nat option"

record grade_event =
  ev_submissionId :: "nat option"

record grading_report =
  res_submissionId :: nat
  res_totalScore :: jsnum
  res_maxPoints :: int
  res_needsManualGrading :: bool
  res_gradingResults :: "grading_result list"

text \<open>
  The loop over the questions, with its accumulators \<^verbatim>\<open>totalScore\<close> and
  \<^verbatim>\<open>gradingResults\<close>. A question without a response (\<^verbatim>\<open>!question.response_id\<close>) is
  recorded with score 0 and skipped; the score of a question that needs no manual grading
  is written at once.
\<close>

fun grade_questions ::
  "lib \<Rightarrow> question list \<Rightarrow> jsnum \<times> grading_result list \<Rightarrow> conn \<Rightarrow>
   (error + jsnum \<times> grading_result list) \<times> conn" where
  "grade_questions l [] acc c = (Inr acc, c)"
| "grade_questions l (question # rest) (totalScore, gradingResults) c =
     (case response_id question of
        None \<Rightarrow>
          grade_questions l rest
            (totalScore,
             gradingResults @
               [\<lparr>score = Fin 0, feedback = ''No response provided'', needsManualGrading = False,
                 questionId = question_id question, responseId = None\<rparr>]) c
      | Some rid \<Rightarrow>
          if rid = 0
          then grade_questions l rest
            (totalScore,
             gradingResults @
               [\<lparr>score = Fin 0, feedback = ''No response provided'', needsManualGrading = False,
                 questionId = question_id question, responseId = None\<rparr>]) c
          else
            (case grade_by_type l question of
               Inl e \<Rightarrow> (Inl e, c)
             | Inr g \<Rightarrow>
                 if \<not> needsManualGrading g
                 then
                   (case pool_query
                           (sql_update (update_response_score (score g) (feedback g) (clock c) rid)) c of
                      (Inl e, c') \<Rightarrow> (Inl e, c')
                    | (Inr _, c') \<Rightarrow>
                        grade_questions l rest
                          (totalScore + score g,
                           gradingResults @
                             [\<lparr>score = score g, feedback = feedback g,
                               needsManualGrading = needsManualGrading g,
                               questionId = question_id question, responseId = Some rid\<rparr>]) c')
                 else
                   grade_questions l rest
                     (totalScore,
                      gradingResults @
                        [\<lparr>score = score g, feedback = feedback g,
                          needsManualGrading = needsManualGrading g,
                          questionId = question_id question, responseId = Some rid\<rparr>]) c))"

text \<open>The body of the \<^verbatim>\<open>try\<close> block of \<^verbatim>\<open>gradeSubmission\<close>.\<close>

definition gradeSubmission_try ::
  "lib \<Rightarrow> grade_event \<Rightarrow> conn \<Rightarrow> (error + grading_report response) \<times> conn" where
  "gradeSubmission_try l event c =
     (case ev_submissionId event of
        None \<Rightarrow> (Inr \<lparr>statusCode = 400, body = Message ''Submission ID is required''\<rparr>, c)
      | Some submissionId \<Rightarrow>
          if submissionId = 0
          then (Inr \<lparr>statusCode = 400, body = Message ''Submission ID is required''\<rparr>, c)
          else
            (case pool_query (sql_select (submission_query submissionId)) c of
               (Inl e, c1) \<Rightarrow> (Inl e, c1)
             | (Inr [], c1) \<Rightarrow>
                 (Inr \<lparr>statusCode = 404, body = Message ''Submission not found''\<rparr>, c1)
             | (Inr (submission # _), c1) \<Rightarrow>
                 if status submission = Graded
                 then (Inr \<lparr>statusCode = 400,
                            body = Message ''Submission is already graded''\<rparr>, c1)
                 else
                   (case pool_query
                           (sql_select (questions_query submissionId (assignment_id submission))) c1 of
                      (Inl e, c2) \<Rightarrow> (Inl e, c2)
                    | (Inr qs, c2) \<Rightarrow>
                        (case grade_questions l qs (Fin 0, []) c2 of
                           (Inl e, c3) \<Rightarrow> (Inl e, c3)
                         | (Inr (totalScore, gradingResults), c3) \<Rightarrow>
                             (let needsManual = list_ex needsManualGrading gradingResults;
                                  report =
                                    \<lparr>statusCode = 200,
                                     body = Payload
                                       \<lparr>res_submissionId = submissionId,
                                        res_totalScore = totalScore,
                                        res_maxPoints = total_points submission,
                                        res_needsManualGrading = needsManual,
                                        res_gradingResults = gradingResults\<rparr>\<rparr>
                              in if \<not> needsManual
                                 then
                                   (case pool_query
                                           (sql_update
                                              (finalize_submission totalScore (clock c3) submissionId)) c3 of
                                      (Inl e, c4) \<Rightarrow> (Inl e, c4)
                                    | (Inr _, c4) \<Rightarrow> (Inr report, c4))
                                 else (Inr report, c3))))))"

text \<open>The handler: whatever the body throws is caught and reported as status 500.\<close>

definition gradeSubmission ::
  "lib \<Rightarrow> grade_event \<Rightarrow> conn \<Rightarrow> grading_report response \<times> conn" where
  "gradeSubmission l event c =
     (case gradeSubmission_try l event c of
        (Inl e, c') \<Rightarrow> (internal_server_error, c')
      | (Inr r, c') \<Rightarrow> (r, c'))"

section \<open>Recording a manual grade\<close>

text \<open>
  The request of \<^verbatim>\<open>manualGradeQuestion\<close>. A field that the body lacks is \<open>None\<close>; the
  score, a number, can also be present and \<^verbatim>\<open>null\<close>, which passes the check
  \<^verbatim>\<open>score === undefined\<close> and is stored as NULL.
\<close>

record manual_event =
  ev_responseId :: "nat option"
  ev_score :: "real option option"
  ev_feedback :: "string option"
  ev_graderId :: "nat option"

text \<open>A value for a numeric column that may be NULL.\<close>

definition numeric_or_null :: "jsnum option \<Rightarrow> error + numeric option" where
  "numeric_or_null x =
     (case x of
        None \<Rightarrow> Inr None
      | Some v \<Rightarrow> (case numeric_5_2 v of Inl e \<Rightarrow> Inl e | Inr w \<Rightarrow> Inr (Some w)))"

definition record_manual_score ::
  "real option \<Rightarrow> string \<Rightarrow> nat option \<Rightarrow> nat \<Rightarrow> nat \<Rightarrow> db \<Rightarrow> error + db" where
  "record_manual_score sc fb graderId now rid d =
     (case numeric_or_null (map_option Fin sc) of
        Inl e \<Rightarrow> Inl e
      | Inr v \<Rightarrow>
          Inr (d\<lparr>question_responses :=
                 map (\<lambda>qr. if qr_response_id qr = rid
                            then qr\<lparr>qr_score := v, qr_feedback := Some fb,
                                    qr_graded_at := Some now, qr_graded_by := graderId\<rparr>
                            else qr)
                   (question_responses d)\<rparr>))"

record aggregate_row = submission_key +
  total_questions :: nat
  graded_questions :: nat
  total_score :: "numeric option"

text \<open>
  The query that follows the write. It joins submissions, questions and responses, keeps
  the joined rows whose response is the one just graded (\<^verbatim>\<open>WHERE qr.response_id = $1\<close>),
  groups them by submission and counts: \<^verbatim>\<open>COUNT(q.question_id)\<close> the rows of the group,
  \<^verbatim>\<open>COUNT(qr.score)\<close> those with a score, \<^verbatim>\<open>SUM(qr.score)\<close> the scores (NULL if none),
  added exactly. The driver hands the two counts and the sum back as strings: two counts
  are equal as strings exactly when they are equal, and the sum, sent back in the last
  update, is read by the store as the number it printed.
\<close>

definition graded_join ::
  "nat \<Rightarrow> db \<Rightarrow> (submission \<times> question_rec \<times> question_response) list" where
  "graded_join rid d =
     [(s, q, qr).
      s \<leftarrow> submissions d, q \<leftarrow> questions d,
      s_assignment_id s \<noteq> None \<and> s_assignment_id s = q_assignment_id q,
      qr \<leftarrow> question_responses d,
      qr_question_id qr = Some (q_question_id q) \<and>
      qr_submission_id qr = Some (s_submission_id s),
      qr_response_id qr = rid]"

definition group_key :: "submission \<times> question_rec \<times> question_response \<Rightarrow> nat \<times> nat option \<times> nat option" where
  "group_key row = (case row of (s, q, qr) \<Rightarrow> (s_submission_id s, s_assignment_id s, s_student_id s))"

definition graded_check_query :: "nat \<Rightarrow> db \<Rightarrow> aggregate_row list" where
  "graded_check_query rid d =
     (let joined = graded_join rid d
      in map (\<lambda>k.
                (let grp = filter (\<lambda>row. group_key row = k) joined;
                     scores = [x. (s, q, qr) \<leftarrow> grp, x \<leftarrow> (case qr_score qr of None \<Rightarrow> [] | Some v \<Rightarrow> [v])]
                 in \<lparr>submission_id = fst k, assignment_id = fst (snd k),
                     student_id = snd (snd k),
                     total_questions = length grp,
                     graded_questions = length scores,
                     total_score = (if scores = [] then None else Some (sum_list scores))\<rparr>))
           (remdups (map group_key joined)))"

definition finalize_manual ::
  "numeric option \<Rightarrow> nat option \<Rightarrow> nat \<Rightarrow> nat \<Rightarrow> db \<Rightarrow> error + db" where
  "finalize_manual totalScore graderId now submissionId d =
     (case numeric_or_null totalScore of
        Inl e \<Rightarrow> Inl e
      | Inr v \<Rightarrow>
          Inr (d\<lparr>submissions :=
                 map (\<lambda>s. if s_submission_id s = submissionId
                           then s\<lparr>s_status := Graded, s_total_score := v,
                                  s_graded_at := Some now, s_graded_by := graderId\<rparr>
                           else s)
                   (submissions d)\<rparr>))"

definition manualGradeQuestion_try ::
  "manual_event \<Rightarrow> conn \<Rightarrow> (error + unit response) \<times> conn" where
  "manualGradeQuestion_try event c =
     (case (ev_responseId event, ev_score event) of
        (Some rid, Some sc) \<Rightarrow>
          if rid = 0
          then (Inr \<lparr>statusCode = 400,
                     body = Message ''Response ID and score are required''\<rparr>, c)
          else
            (case pool_query
                    (sql_update
                       (record_manual_score sc
                          (case ev_feedback event of None \<Rightarrow> [] | Some fb \<Rightarrow> fb)
                          (ev_graderId event) (clock c) rid)) c of
               (Inl e, c1) \<Rightarrow> (Inl e, c1)
             | (Inr _, c1) \<Rightarrow>
                 (case pool_query (sql_select (graded_check_query rid)) c1 of
                    (Inl e, c2) \<Rightarrow> (Inl e, c2)
                  | (Inr [], c2) \<Rightarrow>
                      (Inr \<lparr>statusCode = 200,
                            body = Message ''Question graded successfully''\<rparr>, c2)
                  | (Inr (submission # _), c2) \<Rightarrow>
                      if total_questions submission = graded_questions submission
                      then
                        (case pool_query
                                (sql_update
                                   (finalize_manual (total_score submission) (ev_graderId event)
                                      (clock c2) (submission_id submission))) c2 of
                           (Inl e, c3) \<Rightarrow> (Inl e, c3)
                         | (Inr _, c3) \<Rightarrow>
                             (Inr \<lparr>statusCode = 200,
                                   body = Message ''Question graded successfully''\<rparr>, c3))
                      else
                        (Inr \<lparr>statusCode = 200,
                              body = Message ''Question graded successfully''\<rparr>, c2)))
      | _ \<Rightarrow>
          (Inr \<lparr>statusCode = 400, body = Message ''Response ID and score are required''\<rparr>, c))"

definition manualGradeQuestion :: "manual_event \<Rightarrow> conn \<Rightarrow> unit response \<times> conn" where
  "manualGradeQuestion event c =
     (case manualGradeQuestion_try event c of
        (Inl e, c') \<Rightarrow> (internal_server_error, c')
      | (Inr r, c') \<Rightarrow> (r, c'))"

section \<open>The final grade of a student in a course\<close>

record final_event =
  ev_studentId :: "nat option"
  ev_courseId :: "nat option"

definition categories_query :: "nat \<Rightarrow> db \<Rightarrow> assignment_category list" where
  "categories_query courseId d =
     filter (\<lambda>ac. ac_course_id ac = Some courseId) (assignment_categories d)"

record assignment_row =
  ar_assignment_id :: nat
  ar_title :: string
  ar_total_points :: int
  ar_total_score :: "string option"

text \<open>
  The published assignments of a category, each with the student's graded submission if
  there is one (\<^verbatim>\<open>LEFT JOIN ... AND s.status = 'graded'\<close>). The column
  \<^verbatim>\<open>total_points\<close> is an integer and arrives as a number; \<^verbatim>\<open>total_score\<close> is
  numeric and arrives as a string, or as \<^verbatim>\<open>null\<close>.
\<close>

definition graded_submissions :: "nat \<Rightarrow> nat \<Rightarrow> db \<Rightarrow> submission list" where
  "graded_submissions studentId assignmentId d =
     filter (\<lambda>s. s_assignment_id s = Some assignmentId \<and> s_student_id s = Some studentId \<and>
                  s_status s = Graded)
       (submissions d)"

definition assignments_query :: "nat \<Rightarrow> nat \<Rightarrow> db \<Rightarrow> assignment_row list" where
  "assignments_query studentId categoryId d =
     [\<lparr>ar_assignment_id = a_assignment_id a, ar_title = a_title a,
       ar_total_points = a_total_points a,
       ar_total_score =
         (case s of None \<Rightarrow> None | Some x \<Rightarrow> map_option numeric_out (s_total_score x))\<rparr>.
      a \<leftarrow> assignments d,
      a_category_id a = Some categoryId \<and> a_is_published a,
      s \<leftarrow> left_join (graded_submissions studentId (a_assignment_id a) d)]"

record assignment_detail =
  ad_assignmentId :: nat
  ad_title :: string
  ad_totalPoints :: int
  ad_earnedPoints :: jsval
  ad_percentage :: jsnum

record category_grade =
  cg_categoryId :: nat
  cg_name :: string
  cg_weight :: real
  cg_percentage :: jsnum
  cg_weightedScore :: jsnum
  cg_assignments :: "assignment_detail list"

text \<open>
  \<^verbatim>\<open>assignment.total_score || 0\<close>: the string of the score when there is one (a
  non-empty string is truthy, also \<^verbatim>\<open>0.00\<close>), the number 0 for \<^verbatim>\<open>null\<close>.
\<close>

definition score_or_zero :: "string option \<Rightarrow> jsval" where
  "score_or_zero x = (case x of None \<Rightarrow> Num (Fin 0) | Some v \<Rightarrow> if v \<noteq> [] then Str v else Num (Fin 0))"

definition assignment_detail_of :: "assignment_row \<Rightarrow> assignment_detail" where
  "assignment_detail_of a =
     \<lparr>ad_assignmentId = ar_assignment_id a, ad_title = ar_title a,
      ad_totalPoints = ar_total_points a,
      ad_earnedPoints = score_or_zero (ar_total_score a),
      ad_percentage =
        (case ar_total_score a of
           None \<Rightarrow> Fin 0
         | Some v \<Rightarrow>
             if v \<noteq> []
             then jmul (jdiv (string_to_number v) (Fin (of_int (ar_total_points a)))) (Fin 100)
             else Fin 0)\<rparr>"

text \<open>
  The inner loop: the accumulators \<^verbatim>\<open>totalPoints\<close>, \<^verbatim>\<open>earnedPoints\<close>,
  \<^verbatim>\<open>assignmentDetails\<close>. \<^verbatim>\<open>totalPoints\<close> adds numbers. \<^verbatim>\<open>earnedPoints\<close> starts as
  the number 0 and is extended with \<^verbatim>\<open>+=\<close>: by a string whenever the row has a score.
\<close>

fun sum_assignments ::
  "assignment_row list \<Rightarrow> int \<times> jsval \<times> assignment_detail list \<Rightarrow>
   int \<times> jsval \<times> assignment_detail list" where
  "sum_assignments [] acc = acc"
| "sum_assignments (a # rest) (totalPoints, earnedPoints, assignmentDetails) =
     sum_assignments rest
       (totalPoints + ar_total_points a,
        js_plus earnedPoints (score_or_zero (ar_total_score a)),
        assignmentDetails @ [assignment_detail_of a])"

text \<open>
  The grade of one category. The division converts \<^verbatim>\<open>earnedPoints\<close> to a number. The
  weight, a numeric column, arrives as a string as well; it is only multiplied, which
  converts it back to the number stored.
\<close>

definition category_grade_of :: "assignment_category \<Rightarrow> assignment_row list \<Rightarrow> category_grade" where
  "category_grade_of category rows =
     (if rows = []
      then \<lparr>cg_categoryId = ac_category_id category, cg_name = ac_name category,
            cg_weight = ac_weight category, cg_percentage = Fin 0, cg_weightedScore = Fin 0,
            cg_assignments = []\<rparr>
      else
        (case sum_assignments rows (0, Num (Fin 0), []) of
           (totalPoints, earnedPoints, assignmentDetails) \<Rightarrow>
             (let categoryPercentage =
                    (if 0 < totalPoints
                     then jmul (jdiv (val_number earnedPoints) (Fin (of_int totalPoints))) (Fin 100)
                     else Fin 0);
                  weightedScore =
                    jmul (jdiv categoryPercentage (Fin 100)) (Fin (ac_weight category))
              in \<lparr>cg_categoryId = ac_category_id category, cg_name = ac_name category,
                  cg_weight = ac_weight category, cg_percentage = categoryPercentage,
                  cg_weightedScore = weightedScore, cg_assignments = assignmentDetails\<rparr>)))"

text \<open>
  The outer loop: one query per category; \<^verbatim>\<open>finalGrade\<close> accumulates the weighted
  scores (a category without rows adds nothing and is recorded with zeros).
\<close>

fun grade_categories ::
  "nat \<Rightarrow> assignment_category list \<Rightarrow> jsnum \<times> category_grade list \<Rightarrow> conn \<Rightarrow>
   (error + jsnum \<times> category_grade list) \<times> conn" where
  "grade_categories studentId [] acc c = (Inr acc, c)"
| "grade_categories studentId (category # rest) (finalGrade, categoryGrades) c =
     (case pool_query (sql_select (assignments_query studentId (ac_category_id category))) c of
        (Inl e, c') \<Rightarrow> (Inl e, c')
      | (Inr rows, c') \<Rightarrow>
          if rows = []
          then grade_categories studentId rest
                 (finalGrade, categoryGrades @ [category_grade_of category rows]) c'
          else grade_categories studentId rest
                 (finalGrade + cg_weightedScore (category_grade_of category rows),
                  categoryGrades @ [category_grade_of category rows]) c')"

record scale_row =
  scale_id :: nat
  scale_name :: string
  grade :: string
  min_score :: real
  max_score :: real

text \<open>
  The thresholds of the course's grading scales, \<^verbatim>\<open>ORDER BY gst.min_score DESC\<close>. The
  bounds are numeric columns; the loop only compares them with the final grade, a number,
  and the comparison converts each bound back to the number stored.
\<close>

definition scale_query :: "nat \<Rightarrow> db \<Rightarrow> scale_row list" where
  "scale_query courseId d =
     sort_key (\<lambda>t. - min_score t)
       [\<lparr>scale_id = gs_scale_id gs, scale_name = gs_name gs, grade = gst_grade gst,
         min_score = gst_min_score gst, max_score = gst_max_score gst\<rparr>.
        gs \<leftarrow> grading_scales d, cgs \<leftarrow> course_grading_scales d,
        gs_scale_id gs = cgs_scale_id cgs,
        gst \<leftarrow> grading_scale_thresholds d,
        gst_scale_id gst = Some (gs_scale_id gs),
        cgs_course_id cgs = courseId]"

text \<open>The search for the letter grade: the first threshold that contains the grade.\<close>

fun find_letter_grade :: "jsnum \<Rightarrow> scale_row list \<Rightarrow> string option" where
  "find_letter_grade finalGrade [] = None"
| "find_letter_grade finalGrade (threshold # rest) =
     (if jle (Fin (min_score threshold)) finalGrade \<and> jle finalGrade (Fin (max_score threshold))
      then Some (grade threshold)
      else find_letter_grade finalGrade rest)"

text \<open>The final update: the grade is cast to the type of the column; NaN is stored as NaN.\<close>

definition update_final_grade :: "jsnum \<Rightarrow> nat \<Rightarrow> nat \<Rightarrow> db \<Rightarrow> error + db" where
  "update_final_grade finalGrade studentId courseId d =
     (case numeric_5_2 finalGrade of
        Inl e \<Rightarrow> Inl e
      | Inr v \<Rightarrow>
          Inr (d\<lparr>enrollments :=
                 map (\<lambda>e. if e_student_id e = Some studentId \<and> e_course_id e = Some courseId
                           then e\<lparr>e_final_grade := Some v\<rparr> else e)
                   (enrollments d)\<rparr>))"

record final_report =
  fg_studentId :: nat
  fg_courseId :: nat
  fg_finalGrade :: jsnum
  fg_letterGrade :: "string option"
  fg_categoryGrades :: "category_grade list"

definition calculateFinalGrade_try ::
  "final_event \<Rightarrow> conn \<Rightarrow> (error + final_report response) \<times> conn" where
  "calculateFinalGrade_try event c =
     (case (ev_studentId event, ev_courseId event) of
        (Some studentId, Some courseId) \<Rightarrow>
          if studentId = 0 \<or> courseId = 0
          then (Inr \<lparr>statusCode = 400,
                     body = Message ''Student ID and course ID are required''\<rparr>, c)
          else
            (case pool_query (sql_select (categories_query courseId)) c of
               (Inl e, c1) \<Rightarrow> (Inl e, c1)
             | (Inr categories, c1) \<Rightarrow>
                 if length categories = 0
                 then (Inr \<lparr>statusCode = 404,
                            body = Message ''No assignment categories found for this course''\<rparr>,
                       c1)
                 else
                   (case grade_categories studentId categories (Fin 0, []) c1 of
                      (Inl e, c2) \<Rightarrow> (Inl e, c2)
                    | (Inr (finalGrade, categoryGrades), c2) \<Rightarrow>
                        (case pool_query (sql_select (scale_query courseId)) c2 of
                           (Inl e, c3) \<Rightarrow> (Inl e, c3)
                         | (Inr scale, c3) \<Rightarrow>
                             (let letterGrade =
                                    (if 0 < length scale then find_letter_grade finalGrade scale
                                     else None)
                              in case pool_query
                                        (sql_update
                                           (update_final_grade finalGrade studentId courseId)) c3 of
                                   (Inl e, c4) \<Rightarrow> (Inl e, c4)
                                 | (Inr _, c4) \<Rightarrow>
                                     (Inr \<lparr>statusCode = 200,
                                           body = Payload
                                             \<lparr>fg_studentId = studentId, fg_courseId = courseId,
                                              fg_finalGrade = finalGrade,
                                              fg_letterGrade = letterGrade,
                                              fg_categoryGrades = categoryGrades\<rparr>\<rparr>,
                                      c4)))))
      | _ \<Rightarrow>
          (Inr \<lparr>statusCode = 400,
                body = Message ''Student ID and course ID are required''\<rparr>, c))"

definition calculateFinalGrade :: "final_event \<Rightarrow> conn \<Rightarrow> final_report response \<times> conn" where
  "calculateFinalGrade event c =
     (case calculateFinalGrade_try event c of
        (Inl e, c') \<Rightarrow> (internal_server_error, c')
      | (Inr r, c') \<Rightarrow> (r, c'))"

section \<open>Example data\<close>

text \<open>
  Stand-ins for the external libraries, with the similarity the scorer reports as a
  parameter; the members of the prototypes of arrays, strings and numbers that every
  current version of the runtime defines (beyond those of \<^verbatim>\<open>Object.prototype\<close>); and a
  question with a response, as the loop hands it to a strategy.
\<close>

definition array_prototype :: "string list" where
  "array_prototype =
     [''at'', ''concat'', ''copyWithin'', ''entries'', ''every'', ''fill'', ''filter'', ''find'',
      ''findIndex'', ''flat'', ''flatMap'', ''forEach'', ''includes'', ''indexOf'', ''join'',
      ''keys'', ''lastIndexOf'', ''map'', ''pop'', ''push'', ''reduce'', ''reduceRight'',
      ''reverse'', ''shift'', ''slice'', ''some'', ''sort'', ''splice'', ''unshift'', ''values'']"

definition string_prototype :: "string list" where
  "string_prototype =
     [''anchor'', ''at'', ''big'', ''blink'', ''bold'', ''charAt'', ''charCodeAt'', ''codePointAt'',
      ''concat'', ''endsWith'', ''fixed'', ''fontcolor'', ''fontsize'', ''includes'', ''indexOf'',
      ''italics'', ''lastIndexOf'', ''link'', ''localeCompare'', ''match'', ''matchAll'',
      ''normalize'', ''padEnd'', ''padStart'', ''repeat'', ''replace'', ''replaceAll'', ''search'',
      ''slice'', ''small'', ''split'', ''startsWith'', ''strike'', ''sub'', ''substr'',
      ''substring'', ''sup'', ''toLocaleLowerCase'', ''toLocaleUpperCase'', ''toLowerCase'',
      ''toUpperCase'', ''trim'', ''trimEnd'', ''trimLeft'', ''trimRight'', ''trimStart'']"

definition number_prototype :: "string list" where
  "number_prototype = [''toExponential'', ''toFixed'', ''toPrecision'']"

definition example_lib :: "real \<Rightarrow> lib" where
  "example_lib sim =
     \<lparr>tokenize = (\<lambda>s. [s]), stem = (\<lambda>s. s), compareTwoStrings = (\<lambda>a b. sim),
      parseFloat = (\<lambda>v. case v of JNum x \<Rightarrow> Fin x | _ \<Rightarrow> NaN),
      prototype_has =
        (\<lambda>v key. case v of
                    JArr xs \<Rightarrow> List.member array_prototype key
                  | JStr s \<Rightarrow> List.member string_prototype key
                  | JNum x \<Rightarrow> List.member number_prototype key
                  | _ \<Rightarrow> False)\<rparr>"

definition example_question :: "string \<Rightarrow> json \<Rightarrow> json \<Rightarrow> metadata option \<Rightarrow> question" where
  "example_question t correct given m =
     \<lparr>question_id = 1, type_id = Some 1, content = ''Q'', points = 10,
      correct_answer = correct, options = JNull, rubric = JNull,
      question_type = t, grading_method = ''hybrid'', response_id = Some 1,
      response_data = given, metadata = m\<rparr>"

definition short_answer_example :: question where
  "short_answer_example =
     example_question ''short_answer'' (JStr ''Paris'') (JStr ''Paris, France'') None"

definition flagged_metadata :: metadata where
  "flagged_metadata = no_metadata\<lparr>requiresManualGrading := True\<rparr>"

definition capital_question :: question where
  "capital_question =
     example_question ''fill_in_blank''
       (JObj [(''capital'', JArr [JStr ''Paris'', JStr ''paris''])])
       (JObj [(''capital'', JStr ''PARIS'')]) None"

definition three_blanks :: question where
  "three_blanks =
     example_question ''fill_in_blank''
       (JObj [(''a'', JStr ''one''), (''b'', JStr ''two''), (''c'', JStr ''three'')])
       (JObj [(''a'', JStr ''one''), (''b'', JStr ''2''), (''c'', JStr ''3'')]) None"

definition empty_db :: db where
  "empty_db =
     \<lparr>submissions = [], assignments = [], questions = [], question_types = [],
      question_responses = [], assignment_categories = [], grading_scales = [],
      course_grading_scales = [], grading_scale_thresholds = [], enrollments = []\<rparr>"

definition example_submission :: "nat \<Rightarrow> nat \<Rightarrow> status \<Rightarrow> numeric option \<Rightarrow> submission" where
  "example_submission i a st t =
     \<lparr>s_submission_id = i, s_assignment_id = Some a, s_student_id = Some 7, s_status = st,
      s_total_score = t, s_graded_at = None, s_graded_by = None\<rparr>"

definition example_assignment :: "nat \<Rightarrow> nat \<Rightarrow> int \<Rightarrow> assignment" where
  "example_assignment i cat p =
     \<lparr>a_assignment_id = i, a_category_id = Some cat, a_title = ''Assignment'',
      a_total_points = p, a_is_published = True\<rparr>"

text \<open>
  The course of the specification's example: Homework (weight 40) with two assignments of
  10 points, Exams (weight 60) with one of 50 points. Student 7 has 10, 8 and 45 points;
  student 8 has 10 points on the first homework, no submission to the second, and 50
  points on the exam.
\<close>

definition course_db :: db where
  "course_db = empty_db
     \<lparr>submissions :=
        [example_submission 1 1 Graded (Some (Fin 10)),
         example_submission 2 2 Graded (Some (Fin 8)),
         example_submission 3 3 Graded (Some (Fin 45)),
         (example_submission 4 1 Graded (Some (Fin 10)))\<lparr>s_student_id := Some 8\<rparr>,
         (example_submission 5 3 Graded (Some (Fin 50)))\<lparr>s_student_id := Some 8\<rparr>],
      assignments :=
        [example_assignment 1 1 10, example_assignment 2 1 10, example_assignment 3 2 50],
      assignment_categories :=
        [\<lparr>ac_category_id = 1, ac_course_id = Some 1, ac_name = ''Homework'', ac_weight = 40\<rparr>,
         \<lparr>ac_category_id = 2, ac_course_id = Some 1, ac_name = ''Exams'', ac_weight = 60\<rparr>],
      grading_scales := [\<lparr>gs_scale_id = 1, gs_name = ''Letters''\<rparr>],
      course_grading_scales := [\<lparr>cgs_course_id = 1, cgs_scale_id = 1\<rparr>],
      grading_scale_thresholds :=
        [\<lparr>gst_scale_id = Some 1, gst_grade = ''B'', gst_min_score = 80, gst_max_score = 89.99\<rparr>,
         \<lparr>gst_scale_id = Some 1, gst_grade = ''A'', gst_min_score = 90, gst_max_score = 100\<rparr>],
      enrollments :=
        [\<lparr>e_student_id = Some 7, e_course_id = Some 1, e_final_grade = None\<rparr>,
         \<lparr>e_student_id = Some 8, e_course_id = Some 1, e_final_grade = None\<rparr>]\<rparr>"

definition connect :: "db \<Rightarrow> nat option \<Rightarrow> conn" where
  "connect d f = \<lparr>tables = d, clock = 1000, faults = f\<rparr>"

definition example_question_rec :: "nat \<Rightarrow> nat \<Rightarrow> json \<Rightarrow> question_rec" where
  "example_question_rec i t correct =
     \<lparr>q_question_id = i, q_assignment_id = Some 1, q_type_id = Some t, q_content = ''Q'',
      q_points = 5, q_options = JNull, q_correct_answer = correct, q_rubric = JNull,
      q_metadata = None, q_order_num = Some (int i)\<rparr>"

definition example_response :: "nat \<Rightarrow> nat \<Rightarrow> json \<Rightarrow> numeric option \<Rightarrow> question_response" where
  "example_response i q given sc =
     \<lparr>qr_response_id = i, qr_submission_id = Some 1, qr_question_id = Some q,
      qr_response_data = given, qr_score = sc, qr_feedback = None, qr_graded_at = None,
      qr_graded_by = None\<rparr>"

definition quiz_db :: "status \<Rightarrow> numeric option \<Rightarrow> db" where
  "quiz_db st t = empty_db
     \<lparr>submissions := [example_submission 1 1 st t],
      assignments := [example_assignment 1 1 10],
      question_types :=
        [\<lparr>qt_type_id = 1, qt_name = ''multiple_choice'', qt_grading_method = ''automatic''\<rparr>,
         \<lparr>qt_type_id = 2, qt_name = ''essay'', qt_grading_method = ''manual''\<rparr>],
      questions := [example_question_rec 1 1 (JStr ''a''), example_question_rec 2 1 (JStr ''b'')],
      question_responses :=
        [example_response 1 1 (JStr ''a'') None, example_response 2 2 (JStr ''c'') None]\<rparr>"

definition essay_db :: "numeric option \<Rightarrow> db" where
  "essay_db other = (quiz_db Submitted None)
     \<lparr>questions := [example_question_rec 1 2 JNull, example_question_rec 2 2 JNull],
      question_responses :=
        [example_response 1 1 (JStr ''first essay'') None,
         example_response 2 2 (JStr ''second essay'') other]\<rparr>"

definition manual_event_example :: manual_event where
  "manual_event_example =
     \<lparr>ev_responseId = Some 1, ev_score = Some (Some 4), ev_feedback = None, ev_graderId = Some 9\<rparr>"

section \<open>Notions of the specification\<close>

text \<open>
  The question types whose strategy has a closed form and never asks for a review, and
  those whose strategy reads the grading hints.
\<close>

definition closed_form_types :: "string set" where
  "closed_form_types = {''true_false'', ''multiple_choice'', ''multiple_answer'', ''matching''}"

definition hinted_types :: "string set" where
  "hinted_types = {''fill_in_blank'', ''short_answer'', ''computational''}"

text \<open>
  Fill in the blank, in the words of the specification: a given answer matches an
  accepted one when the two agree after trimming, case ignored unless the question is
  case sensitive; a blank is correct when the student gave a non-empty answer that matches
  its accepted answer or one of its accepted alternatives.
\<close>

definition answer_matches :: "bool \<Rightarrow> string \<Rightarrow> string \<Rightarrow> bool" where
  "answer_matches cs given accepted =
     (if cs then trim given = trim accepted
      else trim (toLowerCase given) = trim (toLowerCase accepted))"

fun accepted_by :: "bool \<Rightarrow> string \<Rightarrow> json \<Rightarrow> bool" where
  "accepted_by cs given (JStr accepted) = answer_matches cs given accepted"
| "accepted_by cs given (JArr alternatives) =
     (\<exists>a \<in> set alternatives.
        case a of JStr accepted \<Rightarrow> answer_matches cs given accepted | _ \<Rightarrow> False)"
| "accepted_by cs given _ = False"

definition blank_correct :: "lib \<Rightarrow> bool \<Rightarrow> json \<Rightarrow> string \<times> json \<Rightarrow> bool" where
  "blank_correct l cs studentAnswers blank =
     (case js_get l studentAnswers (fst blank) of
        Data (JStr given) \<Rightarrow> given \<noteq> [] \<and> accepted_by cs given (snd blank)
      | _ \<Rightarrow> False)"

definition correct_blanks :: "lib \<Rightarrow> 'a question_scheme \<Rightarrow> nat" where
  "correct_blanks l q =
     length (filter (blank_correct l (caseSensitive (metadata_of q)) (response_data q))
       (object_entries (correct_answer q)))"

definition total_blanks :: "'a question_scheme \<Rightarrow> nat" where
  "total_blanks q = length (object_entries (correct_answer q))"

definition blank_ratio :: "lib \<Rightarrow> 'a question_scheme \<Rightarrow> jsnum" where
  "blank_ratio l q = jdiv (Fin (of_nat (correct_blanks l q))) (Fin (of_nat (total_blanks q)))"

text \<open>
  The answers of a blank are texts: the accepted answer is a string or a list of strings,
  and the answer given, if there is one, is a string (or is falsy and not compared). In
  particular the identifier of the blank does not name a built-in that the response
  inherits, such as \<^verbatim>\<open>toString\<close>.
\<close>

fun is_text :: "json \<Rightarrow> bool" where
  "is_text (JStr _) = True"
| "is_text _ = False"

fun accepted_text :: "json \<Rightarrow> bool" where
  "accepted_text (JStr _) = True"
| "accepted_text (JArr alternatives) = list_all is_text alternatives"
| "accepted_text _ = False"

definition blank_texts :: "lib \<Rightarrow> json \<Rightarrow> string \<times> json \<Rightarrow> bool" where
  "blank_texts l studentAnswers blank =
     (accepted_text (snd blank) \<and>
      (case js_get l studentAnswers (fst blank) of
         Undefined \<Rightarrow> True
       | Data given \<Rightarrow> \<not> truthy given \<or> is_text given
       | Builtin \<Rightarrow> False))"

text \<open>
  A number lies half a cent between two multiples of 0.01 when its hundredfold is a whole
  number plus one half. There the rounding \<^verbatim>\<open>Math.round(score * 100) / 100\<close> depends
  on the binary representation of the score, which the real numbers of this model do not
  have; everywhere else the nearest multiple of 0.01 is the same for both.
\<close>

definition half_cent :: "jsnum \<Rightarrow> bool" where
  "half_cent x =
     (case x of Fin r \<Rightarrow> r * 100 - of_int \<lfloor>r * 100\<rfloor> = 1 / 2 | _ \<Rightarrow> False)"

text \<open>The closed interval of a threshold contains the grade.\<close>

definition in_range :: "scale_row \<Rightarrow> jsnum \<Rightarrow> bool" where
  "in_range t g = (jle (Fin (min_score t)) g \<and> jle g (Fin (max_score t)))"

text \<open>
  The final grade, in the words of the specification. The total points of a category sum
  \<^verbatim>\<open>total_points\<close> over its published assignments; the earned points sum the student's
  \<^verbatim>\<open>totalScore\<close> over the graded submissions to these assignments (an assignment without
  one adds 0); the percentage is earned / total \<open>\<times>\<close> 100, and 0 when the total is 0; the
  weighted score is percentage \<open>\<times>\<close> weight / 100; the final grade sums the weighted scores
  of the course's categories.
\<close>

definition published_assignments :: "db \<Rightarrow> nat \<Rightarrow> assignment list" where
  "published_assignments d categoryId =
     filter (\<lambda>a. a_category_id a = Some categoryId \<and> a_is_published a) (assignments d)"

definition category_total_points :: "db \<Rightarrow> nat \<Rightarrow> int" where
  "category_total_points d categoryId =
     sum_list (map a_total_points (published_assignments d categoryId))"

definition total_or_zero :: "submission \<Rightarrow> jsnum" where
  "total_or_zero s = (case s_total_score s of None \<Rightarrow> Fin 0 | Some v \<Rightarrow> v)"

definition earned_on :: "db \<Rightarrow> nat \<Rightarrow> assignment \<Rightarrow> jsnum" where
  "earned_on d studentId a =
     sum_list (map total_or_zero (graded_submissions studentId (a_assignment_id a) d))"

definition category_earned_points :: "db \<Rightarrow> nat \<Rightarrow> nat \<Rightarrow> jsnum" where
  "category_earned_points d studentId categoryId =
     sum_list (map (earned_on d studentId) (published_assignments d categoryId))"

definition category_percentage :: "db \<Rightarrow> nat \<Rightarrow> nat \<Rightarrow> jsnum" where
  "category_percentage d studentId categoryId =
     (if category_total_points d categoryId = 0 then Fin 0
      else jmul (jdiv (category_earned_points d studentId categoryId)
                   (Fin (of_int (category_total_points d categoryId)))) (Fin 100))"

definition weighted_score :: "db \<Rightarrow> nat \<Rightarrow> assignment_category \<Rightarrow> jsnum" where
  "weighted_score d studentId category =
     jdiv (jmul (category_percentage d studentId (ac_category_id category))
             (Fin (ac_weight category))) (Fin 100)"

definition final_grade :: "db \<Rightarrow> nat \<Rightarrow> nat \<Rightarrow> jsnum" where
  "final_grade d studentId courseId =
     sum_list (map (weighted_score d studentId) (categories_query courseId d))"

text \<open>Two states of the database that differ at most in the table of responses.\<close>

definition same_but_responses :: "db \<Rightarrow> db \<Rightarrow> bool" where
  "same_but_responses d d' = (d' = d\<lparr>question_responses := question_responses d'\<rparr>)"









text \<open>
  Auxiliary notions for the loop of \<^verbatim>\<open>gradeSubmission\<close>: the response a row carries
  (\<^verbatim>\<open>!question.response_id\<close> skips a missing or zero identifier), the score writes of a
  run in order (one for each result with a response and no flag), the effect of one write
  and of all writes on a stored response, and the questions the query selects.
\<close>

definition live_response :: "question \<Rightarrow> nat option" where
  "live_response question =
     (case response_id question of None \<Rightarrow> None | Some rid \<Rightarrow> if rid = 0 then None else Some rid)"

definition live_ids :: "question list \<Rightarrow> nat list" where
  "live_ids rows = concat (map (\<lambda>row. case live_response row of None \<Rightarrow> [] | Some rid \<Rightarrow> [rid]) rows)"



definition written :: "nat \<Rightarrow> (nat \<times> jsnum \<times> string) list \<Rightarrow> question_response \<Rightarrow> question_response" where
  "written now ws qr =
     (case map_of ws (qr_response_id qr) of
        None \<Rightarrow> qr
      | Some v \<Rightarrow> qr\<lparr>qr_score := Some (fst v), qr_feedback := Some (snd v), qr_graded_at := Some now\<rparr>)"



section \<open>Properties of the grading strategies\<close>

subsection \<open>Short answers\<close>

text \<open>
  Claim C3, as the code has it. Take a short-answer question without the
  \<^verbatim>\<open>requiresManualGrading\<close> flag. When the correct answer or the response is falsy
  (missing or empty), the strategy returns score 0, "Invalid answer format" and no flag,
  and nothing is compared. Otherwise let the similarity scorer return \<open>similarity\<close>, a
  number that is not negative, and let \<open>threshold\<close> be the value of
  \<^verbatim>\<open>metadata.similarityThreshold || 0.8\<close> (0.8 when the hint is absent or zero). A
  similarity of at least the threshold scores the full points and is flagged only by
  \<^verbatim>\<open>alwaysReview\<close>; a similarity in \<open>[0.7 \<times> threshold, threshold)\<close> scores half the
  points and is flagged; a similarity below \<open>0.7 \<times> threshold\<close> scores 0 and is flagged; and
  \<^verbatim>\<open>alwaysReview\<close> flags the response in every band.
\<close>

theorem short_answer_bands:
  "(\<not> truthy (correct_answer q) \<or> \<not> truthy (response_data q) \<longrightarrow>
    gradeShortAnswer l q =
      Inr \<lparr>score = Fin 0, feedback = ''Invalid answer format'', needsManualGrading = False\<rparr>) \<and>
   (truthy (correct_answer q) \<and> truthy (response_data q) \<and>
    \<not> requiresManualGrading (metadata_of q) \<and>
    calculateTextSimilarity l (response_data q) (correct_answer q) = Inr similarity \<and>
    0 \<le> similarity \<longrightarrow>
    (\<exists>g. gradeShortAnswer l q = Inr g \<and>
      (threshold_of (metadata_of q) \<le> similarity \<longrightarrow>
         score g = points_of q \<and> needsManualGrading g = alwaysReview (metadata_of q)) \<and>
      (0.7 * threshold_of (metadata_of q) \<le> similarity \<and>
       similarity < threshold_of (metadata_of q) \<longrightarrow>
         score g = jmul (points_of q) (Fin 0.5) \<and> needsManualGrading g) \<and>
      (similarity < 0.7 * threshold_of (metadata_of q) \<longrightarrow>
         score g = Fin 0 \<and> needsManualGrading g) \<and>
      (alwaysReview (metadata_of q) \<longrightarrow> needsManualGrading g)))"
  by (auto simp: gradeShortAnswer_def Let_def mult.commute)

text \<open>
  The examples of the specification: with the default threshold 0.8, a similarity of
  exactly 0.8 gives full credit and no flag, 0.75 gives half credit and a flag, and 0.5
  gives no credit and a flag.
\<close>

theorem short_answer_bands_witness:
  "(\<exists>g. gradeShortAnswer (example_lib 0.8) short_answer_example = Inr g \<and>
        score g = Fin 10 \<and> \<not> needsManualGrading g) \<and>
   (\<exists>g. gradeShortAnswer (example_lib 0.75) short_answer_example = Inr g \<and>
        score g = Fin 5 \<and> needsManualGrading g) \<and>
   (\<exists>g. gradeShortAnswer (example_lib 0.5) short_answer_example = Inr g \<and>
        score g = Fin 0 \<and> needsManualGrading g)"
proof -
  have t: "truthy (correct_answer short_answer_example)"
    "truthy (response_data short_answer_example)"
    "\<not> requiresManualGrading (metadata_of short_answer_example)"
    by code_simp+
  have thr: "threshold_of (metadata_of short_answer_example) = 0.8"
    by code_simp
  have al: "\<not> alwaysReview (metadata_of short_answer_example)"
    by code_simp
  have p: "points_of short_answer_example = Fin 10" "jmul (Fin 10) (Fin 0.5) = Fin 5"
    by code_simp+
  have s: "calculateTextSimilarity (example_lib x) (response_data short_answer_example)
             (correct_answer short_answer_example) = Inr x" for x
    by (simp add: calculateTextSimilarity_def example_lib_def short_answer_example_def
        example_question_def)
  show ?thesis
    using short_answer_bands [of short_answer_example "example_lib 0.8" "0.8"]
      short_answer_bands [of short_answer_example "example_lib 0.75" "0.75"]
      short_answer_bands [of short_answer_example "example_lib 0.5" "0.5"] t s
    by (auto simp: thr al p)
qed

text \<open>
  The claim as the specification words it ranges over every response. An empty response
  is not compared at all: whatever the similarity, the guard on missing answers returns
  score 0 without a flag, where the lowest band asks for a flag.
\<close>

theorem short_answer_empty_response_counterexample:
  "calculateTextSimilarity (example_lib 0) (JStr '''') (JStr ''Paris'') = Inr 0 \<and>
   (0::real) < 0.7 * threshold_of no_metadata \<and>
   \<not> requiresManualGrading
       (metadata_of (example_question ''short_answer'' (JStr ''Paris'') (JStr '''') None)) \<and>
   gradeShortAnswer (example_lib 0)
       (example_question ''short_answer'' (JStr ''Paris'') (JStr '''') None) =
     Inr \<lparr>score = Fin 0, feedback = ''Invalid answer format'', needsManualGrading = False\<rparr>"
  by code_simp

subsection \<open>The manual-grading flag\<close>

text \<open>
  Claim C4, as the code has it. A fill-in-the-blank, short-answer or computational
  question whose metadata sets \<^verbatim>\<open>requiresManualGrading\<close>, and whose correct answer and
  response are both truthy, is answered with score 0 and \<^verbatim>\<open>needsManualGrading = true\<close>,
  whatever the libraries would compute. Every type other than the seven graded
  automatically (coding, essay, diagram, oral, ...) gets score 0 and the flag in any case.
  The strategies of true/false, multiple choice, multiple answer and matching never read
  the metadata: their result is the same under any metadata, and it never carries the flag.
\<close>

theorem manual_flag_short_circuit:
  "(requiresManualGrading (metadata_of q) \<and> truthy (correct_answer q) \<and>
    truthy (response_data q) \<and> question_type q \<in> hinted_types \<longrightarrow>
    grade_by_type l q =
      Inr \<lparr>score = Fin 0, feedback = ''This response requires manual grading'',
           needsManualGrading = True\<rparr>) \<and>
   (question_type q \<notin> closed_form_types \<union> hinted_types \<longrightarrow>
    (\<exists>g. grade_by_type l q = Inr g \<and> score g = Fin 0 \<and> needsManualGrading g)) \<and>
   (question_type q \<in> closed_form_types \<longrightarrow>
    grade_by_type l (q\<lparr>metadata := m\<rparr>) = grade_by_type l q \<and>
    (\<exists>g. grade_by_type l q = Inr g \<and> \<not> needsManualGrading g))"
  by (auto simp: grade_by_type_def hinted_types_def closed_form_types_def gradeFillInBlank_def
      gradeShortAnswer_def gradeComputational_def gradeCoding_def Let_def
      gradeMultipleChoice_def gradeMultipleAnswer_def gradeMatching_def points_of_def
      split: json.splits)

theorem manual_flag_short_circuit_witness:
  "grade_by_type (example_lib 1)
     (example_question ''fill_in_blank'' (JObj [(''b1'', JStr ''Paris'')])
        (JObj [(''b1'', JStr ''Paris'')]) (Some flagged_metadata)) =
   Inr \<lparr>score = Fin 0, feedback = ''This response requires manual grading'',
        needsManualGrading = True\<rparr> \<and>
   (\<exists>g. grade_by_type (example_lib 1) (example_question ''essay'' JNull (JStr ''text'') None) =
          Inr g \<and> score g = Fin 0 \<and> needsManualGrading g) \<and>
   grade_by_type (example_lib 1)
     ((example_question ''matching'' (JObj [(''a'', JStr ''x'')]) (JObj [(''a'', JStr ''x'')]) None)
        \<lparr>metadata := Some flagged_metadata\<rparr>) =
   grade_by_type (example_lib 1)
     (example_question ''matching'' (JObj [(''a'', JStr ''x'')]) (JObj [(''a'', JStr ''x'')]) None)"
proof -
  let ?q1 = "example_question ''fill_in_blank'' (JObj [(''b1'', JStr ''Paris'')])
        (JObj [(''b1'', JStr ''Paris'')]) (Some flagged_metadata)"
  let ?q2 = "example_question ''essay'' JNull (JStr ''text'') None"
  let ?q3 = "example_question ''matching'' (JObj [(''a'', JStr ''x'')])
        (JObj [(''a'', JStr ''x'')]) None"
  have h1: "requiresManualGrading (metadata_of ?q1) \<and> truthy (correct_answer ?q1) \<and>
      truthy (response_data ?q1) \<and> question_type ?q1 \<in> hinted_types"
    unfolding hinted_types_def by code_simp
  have h2: "question_type ?q2 \<notin> closed_form_types \<union> hinted_types"
    unfolding hinted_types_def closed_form_types_def by code_simp
  have h3: "question_type ?q3 \<in> closed_form_types"
    unfolding closed_form_types_def by code_simp
  show ?thesis
    using manual_flag_short_circuit [of ?q1 "example_lib 1" None]
      manual_flag_short_circuit [of ?q2 "example_lib 1" None]
      manual_flag_short_circuit [of ?q3 "example_lib 1" "Some flagged_metadata"] h1 h2 h3
    by blast
qed

text \<open>
  The claim as the specification words it covers every type. A multiple-choice question
  with the flag set and the right answer is graded as usual: full points, no flag.
\<close>

theorem multiple_choice_ignores_flag_counterexample:
  "requiresManualGrading
     (metadata_of
        (example_question ''multiple_choice'' (JStr ''b'') (JStr ''b'') (Some flagged_metadata))) \<and>
   grade_by_type (example_lib 1)
     (example_question ''multiple_choice'' (JStr ''b'') (JStr ''b'') (Some flagged_metadata)) =
   Inr \<lparr>score = Fin 10, feedback = ''Correct answer'', needsManualGrading = False\<rparr>"
  by code_simp

subsection \<open>Fill in the blank\<close>

lemma compareAnswers_text:
  "compareAnswers (Data (JStr given)) (JStr accepted) cs = Inr (answer_matches cs given accepted)"
  by (simp add: compareAnswers_def answer_matches_def)

lemma some_answer_text:
  "list_all is_text alternatives \<Longrightarrow>
   some_answer (Data (JStr given)) alternatives cs = Inr (accepted_by cs given (JArr alternatives))"
proof (induction alternatives)
  case Nil
  then show ?case by simp
next
  case (Cons a alternatives)
  then obtain accepted where a: "a = JStr accepted"
    by (cases a) auto
  with Cons show ?case
    by (simp add: compareAnswers_text)
qed

text \<open>The loop counts exactly the correct blanks, and does not throw, when the answers are texts.\<close>

lemma count_correct_text:
  "\<forall>blank \<in> set blanks. blank_texts l studentAnswers blank \<Longrightarrow>
   count_correct l studentAnswers cs blanks n =
     Inr (n + length (filter (blank_correct l cs studentAnswers) blanks))"
proof (induction blanks arbitrary: n)
  case Nil
  then show ?case by simp
next
  case (Cons blank blanks)
  obtain blankId correctAnswer where blank: "blank = (blankId, correctAnswer)"
    by (cases blank)
  from Cons.prems have wf: "blank_texts l studentAnswers (blankId, correctAnswer)"
    and rest: "\<forall>b \<in> set blanks. blank_texts l studentAnswers b"
    by (simp_all add: blank)
  note IH = Cons.IH [OF rest]
  show ?case
  proof (cases "js_get l studentAnswers blankId")
    case Undefined
    then show ?thesis by (simp add: blank IH blank_correct_def)
  next
    case Builtin
    with wf show ?thesis by (simp add: blank_texts_def)
  next
    case (Data given)
    show ?thesis
    proof (cases "truthy given")
      case False
      then have "\<not> blank_correct l cs studentAnswers (blankId, correctAnswer)"
        using Data by (cases given) (auto simp: blank_correct_def)
      with Data False show ?thesis by (simp add: blank IH)
    next
      case True
      with wf Data obtain s where given: "given = JStr s" and s: "s \<noteq> []"
        by (cases given) (auto simp: blank_texts_def)
      from wf have acc: "accepted_text correctAnswer"
        by (simp add: blank_texts_def)
      have cmp: "(case correctAnswer of
                    JArr answers \<Rightarrow> some_answer (Data given) answers cs
                  | _ \<Rightarrow> compareAnswers (Data given) correctAnswer cs) =
                 Inr (accepted_by cs s correctAnswer)"
        using acc
        by (cases correctAnswer) (simp_all add: given compareAnswers_text some_answer_text)
      have bc: "blank_correct l cs studentAnswers (blankId, correctAnswer) =
                accepted_by cs s correctAnswer"
        using Data given s by (simp add: blank_correct_def)
      show ?thesis
        using Data True by (simp add: blank IH cmp bc)
    qed
  qed
qed

lemma blank_ratio_not_negative: "\<not> jlt (blank_ratio l q) (Fin 0)"
  by (simp add: blank_ratio_def not_less)

text \<open>
  Away from the half cents, the rounding of the strategies yields the one multiple of 0.01
  that is less than half a cent away, whichever way halves are rounded.
\<close>

lemma round2_nearest:
  assumes "\<not> half_cent (Fin x)"
  shows "\<exists>k::int. round2 (Fin x) = Fin (of_int k / 100) \<and> \<bar>of_int k / 100 - x\<bar> < 1 / 200"
proof -
  let ?y = "x * 100"
  let ?k = "\<lfloor>?y + 1 / 2\<rfloor>"
  have lo: "of_int ?k \<le> ?y + 1 / 2" and hi: "?y + 1 / 2 < of_int ?k + 1"
    by linarith+
  have ne: "of_int ?k \<noteq> ?y + 1 / 2"
  proof
    assume e: "of_int ?k = ?y + 1 / 2"
    define k where "k = ?k"
    from e have y: "?y = of_int k - 1 / 2"
      unfolding k_def by linarith
    have "\<lfloor>of_int k - 1 / 2 :: real\<rfloor> = k - 1"
      by (rule floor_unique) simp_all
    with y have "?y - of_int \<lfloor>?y\<rfloor> = 1 / 2" by simp
    with assms show False by (simp add: half_cent_def)
  qed
  from lo hi ne have "\<bar>of_int ?k - ?y\<bar> < 1 / 2" by linarith
  then have "\<bar>of_int ?k / 100 - x\<bar> < 1 / 200" by (simp add: abs_if field_simps split: if_splits)
  moreover have "round2 (Fin x) = Fin (of_int ?k / 100)"
    by (simp add: round2_def)
  ultimately show ?thesis by blast
qed

text \<open>
  Claim C8, as the code has it. Take a fill-in-the-blank question without the
  \<^verbatim>\<open>requiresManualGrading\<close> flag, whose correct answers and response are both truthy
  and whose answers are texts: every accepted answer is a string or a list of strings, and
  what the response holds under the identifier of a blank is a string, is falsy or is
  missing (so the identifier does not name a built-in that the response inherits). Each
  blank is compared with its accepted answer or any of its accepted alternatives, ignoring
  case unless \<^verbatim>\<open>metadata.caseSensitive\<close> is set, and a blank without an answer counts as
  incorrect (\<open>correct_blanks\<close>). Provided the product
  \<open>correctBlanks / totalBlanks \<times> points\<close> does not lie half a cent between two multiples
  of 0.01, the score is this product rounded to two decimals, that is, the multiple of
  0.01 less than half a cent away from it; and \<^verbatim>\<open>needsManualGrading\<close> holds exactly when
  \<^verbatim>\<open>metadata.alwaysReview\<close> is set or the ratio \<open>correctBlanks / totalBlanks\<close> is below
  \<^verbatim>\<open>metadata.reviewThreshold\<close>.
\<close>

theorem fill_in_blank_score:
  "truthy (correct_answer q) \<Longrightarrow> truthy (response_data q) \<Longrightarrow>
   \<not> requiresManualGrading (metadata_of q) \<Longrightarrow>
   \<forall>blank \<in> set (object_entries (correct_answer q)). blank_texts l (response_data q) blank \<Longrightarrow>
   \<not> half_cent (jmul (blank_ratio l q) (points_of q)) \<Longrightarrow>
   \<exists>g. gradeFillInBlank l q = Inr g \<and>
     score g = round2 (jmul (blank_ratio l q) (points_of q)) \<and>
     (\<forall>x. jmul (blank_ratio l q) (points_of q) = Fin x \<longrightarrow>
        (\<exists>k::int. score g = Fin (of_int k / 100) \<and> \<bar>of_int k / 100 - x\<bar> < 1 / 200)) \<and>
     needsManualGrading g =
       (alwaysReview (metadata_of q) \<or>
        (\<exists>t. reviewThreshold (metadata_of q) = Some t \<and> jlt (blank_ratio l q) (Fin t)))"
proof -
  assume a: "truthy (correct_answer q)" "truthy (response_data q)"
    "\<not> requiresManualGrading (metadata_of q)"
    and wf: "\<forall>blank \<in> set (object_entries (correct_answer q)).
               blank_texts l (response_data q) blank"
    and tie: "\<not> half_cent (jmul (blank_ratio l q) (points_of q))"
  have cnt: "count_correct l (response_data q) (caseSensitive (metadata_of q))
               (object_entries (correct_answer q)) 0 = Inr (correct_blanks l q)"
    using count_correct_text [OF wf, of "caseSensitive (metadata_of q)" 0]
    by (simp add: correct_blanks_def)
  have thr: "(case reviewThreshold (metadata_of q) of None \<Rightarrow> False
               | Some t \<Rightarrow> t \<noteq> 0 \<and> jlt (blank_ratio l q) (Fin t)) =
             (\<exists>t. reviewThreshold (metadata_of q) = Some t \<and> jlt (blank_ratio l q) (Fin t))"
    using blank_ratio_not_negative [of l q] by (auto split: option.splits)
  have near: "\<forall>x. jmul (blank_ratio l q) (points_of q) = Fin x \<longrightarrow>
        (\<exists>k::int. round2 (jmul (blank_ratio l q) (points_of q)) = Fin (of_int k / 100) \<and>
                  \<bar>of_int k / 100 - x\<bar> < 1 / 200)"
    using tie round2_nearest by auto
  show ?thesis
    using a thr [unfolded blank_ratio_def total_blanks_def] near [unfolded blank_ratio_def total_blanks_def]
    by (simp add: gradeFillInBlank_def Let_def cnt blank_ratio_def total_blanks_def
        del: jdiv.simps jmul.simps)
qed

text \<open>
  The example of the specification: the accepted answers are "Paris" and "paris", the
  student answers "PARIS", and the blank counts as correct.
\<close>

theorem fill_in_blank_score_witness:
  "correct_blanks (example_lib 1) capital_question = 1 \<and> total_blanks capital_question = 1 \<and>
   (\<exists>g. gradeFillInBlank (example_lib 1) capital_question = Inr g \<and> score g = Fin 10 \<and>
        \<not> needsManualGrading g)"
proof -
  have h: "truthy (correct_answer capital_question)" "truthy (response_data capital_question)"
    "\<not> requiresManualGrading (metadata_of capital_question)"
    "\<forall>blank \<in> set (object_entries (correct_answer capital_question)).
       blank_texts (example_lib 1) (response_data capital_question) blank"
    "\<not> half_cent (jmul (blank_ratio (example_lib 1) capital_question) (points_of capital_question))"
    by code_simp+
  have v: "correct_blanks (example_lib 1) capital_question = 1" "total_blanks capital_question = 1"
    "round2 (jmul (blank_ratio (example_lib 1) capital_question) (points_of capital_question)) = Fin 10"
    "\<not> alwaysReview (metadata_of capital_question)"
    "reviewThreshold (metadata_of capital_question) = None"
    by code_simp+
  show ?thesis
    using fill_in_blank_score [OF h] by (auto simp: v)
qed

text \<open>
  The claim as the specification words it gives the score as the unrounded product. With
  one correct blank out of three and 10 points the code returns 3.33, not 10/3.
\<close>

theorem fill_in_blank_rounding_counterexample:
  "\<not> requiresManualGrading (metadata_of three_blanks) \<and>
   correct_blanks (example_lib 1) three_blanks = 1 \<and> total_blanks three_blanks = 3 \<and>
   points_of three_blanks = Fin 10 \<and>
   gradeFillInBlank (example_lib 1) three_blanks =
     Inr \<lparr>score = Fin (333 / 100), feedback = ''1 out of 3 answers correct'',
          needsManualGrading = False\<rparr> \<and>
   Fin (333 / 100) \<noteq> jmul (jdiv (Fin 1) (Fin 3)) (Fin 10)"
  by code_simp

section \<open>Properties of the handlers\<close>

subsection \<open>Numbers\<close>



subsection \<open>Statements of the store\<close>

text \<open>A select leaves the tables as they are; it fails only when the store refuses it.\<close>

lemma pool_query_select:
  "pool_query (sql_select q) c = (r, c') \<Longrightarrow>
   tables c' = tables c \<and> clock c' = clock c \<and>
   (r = Inl StorageFailure \<and> faults c = Some 0 \<or> r = Inr (q (tables c)) \<and> faults c \<noteq> Some 0)"
  by (auto simp: pool_query_def sql_select_def split: option.splits nat.splits)

lemma pool_query_select_ok:
  "faults c \<noteq> Some 0 \<Longrightarrow>
   \<exists>c'. pool_query (sql_select q) c = (Inr (q (tables c)), c') \<and> tables c' = tables c \<and>
        clock c' = clock c"
  by (auto simp: pool_query_def sql_select_def split: option.splits nat.splits)


lemma grade_categories_tables:
  "grade_categories studentId categories acc c = (r, c') \<Longrightarrow> tables c' = tables c"
proof (induction categories arbitrary: acc c)
  case Nil
  then show ?case by (cases acc) simp
next
  case (Cons category categories)
  obtain finalGrade categoryGrades where acc: "acc = (finalGrade, categoryGrades)"
    by (cases acc)
  obtain r1 c1 where q: "pool_query (sql_select (assignments_query studentId (ac_category_id category))) c = (r1, c1)"
    by (cases "pool_query (sql_select (assignments_query studentId (ac_category_id category))) c")
  from pool_query_select [OF q] have t: "tables c1 = tables c" by simp
  show ?case
  proof (cases r1)
    case (Inl e)
    with Cons.prems q acc t show ?thesis by simp
  next
    case (Inr rows)
    with Cons.prems q acc have
      "\<exists>acc'. grade_categories studentId categories acc' c1 = (r, c')"
      by (auto split: if_splits)
    then show ?thesis using Cons.IH t by auto
  qed
qed

subsection \<open>Rejected grading requests\<close>

lemma submission_query_rows:
  "row \<in> set (submission_query submissionId d) \<Longrightarrow>
   \<exists>s \<in> set (submissions d). s_submission_id s = submissionId \<and> status row = s_status s \<and>
      assignment_id row = s_assignment_id s \<and> s_assignment_id s \<noteq> None"
  by (auto simp: submission_query_def split: if_splits)

lemma submission_query_empty:
  "\<forall>s \<in> set (submissions d). s_submission_id s \<noteq> submissionId \<Longrightarrow>
   submission_query submissionId d = []"
  by (auto simp: submission_query_def)

lemma submission_query_found:
  "s \<in> set (submissions d) \<Longrightarrow> s_submission_id s = submissionId \<Longrightarrow>
   a \<in> set (assignments d) \<Longrightarrow> s_assignment_id s = Some (a_assignment_id a) \<Longrightarrow>
   submission_query submissionId d \<noteq> []"
  by (auto simp: submission_query_def filter_empty_conv)

text \<open>
  Claim C6. Let the request name a submission (a non-zero identifier) and the store accept
  the first query. If no submission has this identifier, \<^verbatim>\<open>gradeSubmission\<close> answers
  404 "Submission not found". If the submission exists, with its assignment, and its
  status is \<^verbatim>\<open>graded\<close>, the handler answers 400 "Submission is already graded": this is
  how the code reports the conflict. In both cases no table is modified, so a finalized
  submission is never graded again or overwritten.
\<close>

theorem grade_submission_rejections:
  "submissionId \<noteq> 0 \<and> faults c \<noteq> Some 0 \<longrightarrow>
   ((\<forall>s \<in> set (submissions (tables c)). s_submission_id s \<noteq> submissionId) \<longrightarrow>
    (\<exists>c'. gradeSubmission l \<lparr>ev_submissionId = Some submissionId\<rparr> c =
            (\<lparr>statusCode = 404, body = Message ''Submission not found''\<rparr>, c') \<and>
          tables c' = tables c)) \<and>
   ((\<exists>a \<in> set (assignments (tables c)). \<exists>s \<in> set (submissions (tables c)).
        s_submission_id s = submissionId \<and> s_assignment_id s = Some (a_assignment_id a)) \<and>
    (\<forall>s \<in> set (submissions (tables c)). s_submission_id s = submissionId \<longrightarrow> s_status s = Graded) \<longrightarrow>
    (\<exists>c'. gradeSubmission l \<lparr>ev_submissionId = Some submissionId\<rparr> c =
            (\<lparr>statusCode = 400, body = Message ''Submission is already graded''\<rparr>, c') \<and>
          tables c' = tables c))"
proof (intro impI conjI)
  assume a: "submissionId \<noteq> 0 \<and> faults c \<noteq> Some 0"
  then obtain c1 where q: "pool_query (sql_select (submission_query submissionId)) c =
      (Inr (submission_query submissionId (tables c)), c1)" and t: "tables c1 = tables c"
    using pool_query_select_ok [of c "submission_query submissionId"] by auto
  {
    assume "\<forall>s \<in> set (submissions (tables c)). s_submission_id s \<noteq> submissionId"
    then have "submission_query submissionId (tables c) = []"
      by (rule submission_query_empty)
    with a q t show "\<exists>c'. gradeSubmission l \<lparr>ev_submissionId = Some submissionId\<rparr> c =
            (\<lparr>statusCode = 404, body = Message ''Submission not found''\<rparr>, c') \<and>
          tables c' = tables c"
      by (simp add: gradeSubmission_def gradeSubmission_try_def)
  }
  {
    assume b: "(\<exists>a \<in> set (assignments (tables c)). \<exists>s \<in> set (submissions (tables c)).
        s_submission_id s = submissionId \<and> s_assignment_id s = Some (a_assignment_id a)) \<and>
      (\<forall>s \<in> set (submissions (tables c)). s_submission_id s = submissionId \<longrightarrow> s_status s = Graded)"
    then have "submission_query submissionId (tables c) \<noteq> []"
      using submission_query_found by blast
    then obtain row rows where rows: "submission_query submissionId (tables c) = row # rows"
      by (cases "submission_query submissionId (tables c)") auto
    then have "row \<in> set (submission_query submissionId (tables c))" by simp
    from submission_query_rows [OF this] b have "status row = Graded" by auto
    with a q t rows show "\<exists>c'. gradeSubmission l \<lparr>ev_submissionId = Some submissionId\<rparr> c =
            (\<lparr>statusCode = 400, body = Message ''Submission is already graded''\<rparr>, c') \<and>
          tables c' = tables c"
      by (simp add: gradeSubmission_def gradeSubmission_try_def)
  }
qed

theorem grade_submission_rejections_witness:
  "(\<exists>c'. gradeSubmission (example_lib 1) \<lparr>ev_submissionId = Some 5\<rparr> (connect (quiz_db Graded (Some (Fin 5))) None) =
            (\<lparr>statusCode = 404, body = Message ''Submission not found''\<rparr>, c') \<and>
          tables c' = quiz_db Graded (Some (Fin 5))) \<and>
   (\<exists>c'. gradeSubmission (example_lib 1) \<lparr>ev_submissionId = Some 1\<rparr> (connect (quiz_db Graded (Some (Fin 5))) None) =
            (\<lparr>statusCode = 400, body = Message ''Submission is already graded''\<rparr>, c') \<and>
          tables c' = quiz_db Graded (Some (Fin 5)))"
proof -
  let ?c = "connect (quiz_db Graded (Some (Fin 5))) None"
  have t: "tables ?c = quiz_db Graded (Some (Fin 5))"
    by (simp add: connect_def)
  have h: "(5::nat) \<noteq> 0 \<and> faults ?c \<noteq> Some 0" "(1::nat) \<noteq> 0 \<and> faults ?c \<noteq> Some 0"
    "\<forall>s \<in> set (submissions (tables ?c)). s_submission_id s \<noteq> 5"
    "(\<exists>a \<in> set (assignments (tables ?c)). \<exists>s \<in> set (submissions (tables ?c)).
        s_submission_id s = 1 \<and> s_assignment_id s = Some (a_assignment_id a)) \<and>
    (\<forall>s \<in> set (submissions (tables ?c)). s_submission_id s = 1 \<longrightarrow> s_status s = Graded)"
    by code_simp+
  show ?thesis
    using grade_submission_rejections [of 5 ?c "example_lib 1"]
      grade_submission_rejections [of 1 ?c "example_lib 1"] h
    unfolding t by blast
qed

subsection \<open>The letter grade\<close>

lemma find_letter_grade_none:
  "find_letter_grade g scale = None \<longleftrightarrow> (\<forall>t \<in> set scale. \<not> in_range t g)"
  by (induction scale) (auto simp: in_range_def)

lemma find_letter_grade_first:
  "i < length scale \<Longrightarrow> in_range (scale ! i) g \<Longrightarrow> \<forall>j < i. \<not> in_range (scale ! j) g \<Longrightarrow>
   find_letter_grade g scale = Some (grade (scale ! i))"
proof (induction scale arbitrary: i)
  case Nil
  then show ?case by simp
next
  case (Cons t scale)
  show ?case
  proof (cases i)
    case 0
    with Cons.prems show ?thesis by (simp add: in_range_def)
  next
    case (Suc k)
    with Cons.prems have "\<not> in_range t g" by auto
    moreover from Cons.prems Suc have "find_letter_grade g scale = Some (grade (scale ! k))"
      by (intro Cons.IH) auto
    ultimately show ?thesis using Suc by (auto simp: in_range_def)
  qed
qed

text \<open>The letter grade of a successful response is resolved from its final grade.\<close>

lemma calculateFinalGrade_letter:
  assumes "calculateFinalGrade \<lparr>ev_studentId = Some studentId, ev_courseId = Some courseId\<rparr> c =
     (\<lparr>statusCode = 200, body = Payload r\<rparr>, c')"
  shows "fg_letterGrade r = find_letter_grade (fg_finalGrade r) (scale_query courseId (tables c))"
proof -
  from assms obtain c1 c2 c3 c4 categories finalGrade categoryGrades scale where
    q1: "pool_query (sql_select (categories_query courseId)) c = (Inr categories, c1)"
    and lp: "grade_categories studentId categories (Fin 0, []) c1 = (Inr (finalGrade, categoryGrades), c2)"
    and q2: "pool_query (sql_select (scale_query courseId)) c2 = (Inr scale, c3)"
    and r: "fg_letterGrade r = (if 0 < length scale then find_letter_grade finalGrade scale else None)"
      "fg_finalGrade r = finalGrade"
    by (auto simp: calculateFinalGrade_def calculateFinalGrade_try_def Let_def
        split: if_splits prod.splits sum.splits)
  from pool_query_select [OF q1] grade_categories_tables [OF lp] pool_query_select [OF q2]
  have "scale = scale_query courseId (tables c)" by auto
  with r show ?thesis by (cases "scale_query courseId (tables c)") auto
qed

text \<open>
  Claim C7. The thresholds of the course's grading scale are read in the order of
  descending \<^verbatim>\<open>min_score\<close>. For every final grade and every list of thresholds, the
  search returns no letter exactly when no threshold's closed interval \<open>[min, max]\<close>
  contains the grade, and otherwise the letter of the first threshold in the list that
  contains it. The letter grade that \<^verbatim>\<open>calculateFinalGrade\<close> returns is the result of
  this search for the final grade it returns, on the course's thresholds.
\<close>

theorem letter_grade_resolution:
  "sorted (map (\<lambda>t. - min_score t) (scale_query courseId d)) \<and>
   (find_letter_grade g scale = None \<longleftrightarrow> (\<forall>t \<in> set scale. \<not> in_range t g)) \<and>
   (\<forall>i < length scale. in_range (scale ! i) g \<and> (\<forall>j < i. \<not> in_range (scale ! j) g) \<longrightarrow>
      find_letter_grade g scale = Some (grade (scale ! i))) \<and>
   (calculateFinalGrade \<lparr>ev_studentId = Some studentId, ev_courseId = Some courseId\<rparr> c =
      (\<lparr>statusCode = 200, body = Payload r\<rparr>, c') \<longrightarrow>
    fg_letterGrade r = find_letter_grade (fg_finalGrade r) (scale_query courseId (tables c)))"
  using find_letter_grade_none find_letter_grade_first calculateFinalGrade_letter
  by (simp add: scale_query_def)

text \<open>
  The example of the specification: with A = [90, 100] and B = [80, 89.99], stored in the
  other order, the grade 90 resolves to A; the grade 89.995 falls in the gap and has no
  letter. And a run of the handler: student 8 of the example course has the final grade
  80, which resolves to B.
\<close>

theorem letter_grade_resolution_witness:
  "map grade (scale_query 1 course_db) = [''A'', ''B''] \<and>
   in_range (scale_query 1 course_db ! 0) (Fin 90) \<and>
   \<not> in_range (scale_query 1 course_db ! 1) (Fin 90) \<and>
   find_letter_grade (Fin 90) (scale_query 1 course_db) = Some ''A'' \<and>
   find_letter_grade (Fin 89.995) (scale_query 1 course_db) = None \<and>
   (case body (fst (calculateFinalGrade \<lparr>ev_studentId = Some 8, ev_courseId = Some 1\<rparr>
                      (connect course_db None))) of
      Payload r \<Rightarrow> fg_finalGrade r = Fin 80 \<and> fg_letterGrade r = Some ''B''
    | Message m \<Rightarrow> False)"
proof -
  let ?run = "calculateFinalGrade \<lparr>ev_studentId = Some 8, ev_courseId = Some 1\<rparr>
                (connect course_db None)"
  have h: "map grade (scale_query 1 course_db) = [''A'', ''B'']"
    "in_range (scale_query 1 course_db ! 0) (Fin 90)"
    "\<not> in_range (scale_query 1 course_db ! 1) (Fin 90)"
    "\<forall>t \<in> set (scale_query 1 course_db). \<not> in_range t (Fin 89.995)"
    "0 < length (scale_query 1 course_db)"
    "grade (scale_query 1 course_db ! 0) = ''A''"
    by code_simp+
  have h80: "\<not> in_range (scale_query 1 course_db ! 0) (Fin 80)"
    "in_range (scale_query 1 course_db ! 1) (Fin 80)"
    "grade (scale_query 1 course_db ! 1) = ''B''"
    "length (scale_query 1 course_db) = 2"
    by code_simp+
  have first: "find_letter_grade (Fin 90) (scale_query 1 course_db) = Some ''A''"
    and gap: "find_letter_grade (Fin 89.995) (scale_query 1 course_db) = None"
    using letter_grade_resolution [of 1 course_db "Fin 90" "scale_query 1 course_db"]
      letter_grade_resolution [of 1 course_db "Fin 89.995" "scale_query 1 course_db"] h
    by auto
  have "\<forall>j<1. \<not> in_range (scale_query 1 course_db ! j) (Fin 80)"
    using h80(1) by simp
  with letter_grade_resolution [of 1 course_db "Fin 80" "scale_query 1 course_db"] h80
  have second: "find_letter_grade (Fin 80) (scale_query 1 course_db) = Some ''B''"
    by (metis one_less_numeral_iff semiring_norm(76))
  have v: "statusCode (fst ?run) = 200"
    "case body (fst ?run) of Payload r \<Rightarrow> fg_finalGrade r = Fin 80 | Message m \<Rightarrow> False"
    "tables (connect course_db None) = course_db"
    by code_simp+
  then obtain r where r: "body (fst ?run) = Payload r" "fg_finalGrade r = Fin 80"
    by (cases "body (fst ?run)") auto
  with v(1) have "?run = (\<lparr>statusCode = 200, body = Payload r\<rparr>, snd ?run)"
    by (cases ?run; cases "fst ?run") auto
  with letter_grade_resolution [of 1 course_db "Fin 90" "[]" 8 "connect course_db None" r "snd ?run"]
  have "fg_letterGrade r = find_letter_grade (fg_finalGrade r) (scale_query 1 course_db)"
    by (simp add: v(3))
  with r second have "fg_letterGrade r = Some ''B''" by simp
  with h first gap r show ?thesis by simp
qed

subsection \<open>A course without categories\<close>

text \<open>
  Claim C10. When the course has no assignment category, \<^verbatim>\<open>calculateFinalGrade\<close>, called
  with both identifiers and a store that accepts the query, answers 404 "No assignment
  categories found for this course" and leaves every table as it was: no final grade is
  computed or stored.
\<close>

theorem no_categories_not_found:
  "categories_query courseId (tables c) = [] \<Longrightarrow> studentId \<noteq> 0 \<Longrightarrow> courseId \<noteq> 0 \<Longrightarrow>
   faults c \<noteq> Some 0 \<Longrightarrow>
   \<exists>c'. calculateFinalGrade \<lparr>ev_studentId = Some studentId, ev_courseId = Some courseId\<rparr> c =
          (\<lparr>statusCode = 404,
            body = Message ''No assignment categories found for this course''\<rparr>, c') \<and>
        tables c' = tables c"
proof -
  assume a: "categories_query courseId (tables c) = []" "studentId \<noteq> 0" "courseId \<noteq> 0"
    and f: "faults c \<noteq> Some 0"
  from pool_query_select_ok [OF f, of "categories_query courseId"] a
  show ?thesis
    by (auto simp: calculateFinalGrade_def calculateFinalGrade_try_def)
qed

theorem no_categories_not_found_witness:
  "\<exists>c'. calculateFinalGrade \<lparr>ev_studentId = Some 7, ev_courseId = Some 2\<rparr> (connect course_db None) =
          (\<lparr>statusCode = 404,
            body = Message ''No assignment categories found for this course''\<rparr>, c') \<and>
        tables c' = course_db"
proof -
  have h: "categories_query 2 (tables (connect course_db None)) = []" "(7::nat) \<noteq> 0" "(2::nat) \<noteq> 0"
    "faults (connect course_db None) \<noteq> Some 0"
    by code_simp+
  have t: "tables (connect course_db None) = course_db"
    by (simp add: connect_def)
  show ?thesis
    using no_categories_not_found [OF h] by (simp add: t)
qed

subsection \<open>The final grade\<close>

text \<open>
  Claim C2 asks for the final grade as the sum over the categories of
  earned / total \<open>\<times>\<close> weight, and gives an example: Homework (weight 40) with 10/10 and
  8/10, Exams (weight 60) with 45/50, final grade 90; this is the value of \<open>final_grade\<close>
  on the example. The handler does not return it. The driver hands each
  \<^verbatim>\<open>total_score\<close> back as a string, so \<^verbatim>\<open>earnedPoints += assignment.total_score || 0\<close>
  concatenates: for Homework \<^verbatim>\<open>earnedPoints\<close> becomes the string \<^verbatim>\<open>010.008.00\<close>, the
  division turns it into NaN, and the percentage and the weighted score of the category,
  the final grade of the response and the grade stored in the enrollment are all NaN; no
  letter is resolved. (Exams, with a single score, comes out right: \<^verbatim>\<open>045.00\<close> is 45.)
\<close>

theorem final_grade_concatenates_scores:
  "final_grade course_db 7 1 = Fin 90 \<and>
   map (\<lambda>a. score_or_zero (ar_total_score a)) (assignments_query 7 1 course_db) =
     [Str ''10.00'', Str ''8.00''] \<and>
   fst (snd (sum_assignments (assignments_query 7 1 course_db) (0, Num (Fin 0), []))) =
     Str ''010.008.00'' \<and>
   (case calculateFinalGrade \<lparr>ev_studentId = Some 7, ev_courseId = Some 1\<rparr>
           (connect course_db None) of
      (response, c') \<Rightarrow>
        statusCode response = 200 \<and>
        (case body response of
           Payload r \<Rightarrow>
             fg_finalGrade r = NaN \<and> fg_letterGrade r = None \<and>
             map cg_percentage (fg_categoryGrades r) = [NaN, Fin 90] \<and>
             map cg_weightedScore (fg_categoryGrades r) = [NaN, Fin 54]
         | Message m \<Rightarrow> False) \<and>
        map e_final_grade (enrollments (tables c')) = [Some NaN, None])"
  by code_simp

subsection \<open>Manual grades\<close>

text \<open>
  Claim C9 asks that a manual grade finalizes the submission only when every question of
  the assignment has a score, with the sum of all scores as total. The query that decides
  it keeps only the joined row of the response just graded, so its counts are 1 and 1 and
  its sum is the score just recorded. In a submission with two essay responses, grading
  the first with 4 points finalizes the submission with total 4 while the second response
  has no score; and when the second response already has 5 points, the total stored is
  still 4, not 9.
\<close>

theorem manual_grade_finalizes_early:
  "(case manualGradeQuestion manual_event_example (connect (essay_db None) None) of
      (r, c') \<Rightarrow>
        statusCode r = 200 \<and>
        map qr_score (question_responses (tables c')) = [Some (Fin 4), None] \<and>
        map s_status (submissions (tables c')) = [Graded] \<and>
        map s_total_score (submissions (tables c')) = [Some (Fin 4)] \<and>
        map s_graded_by (submissions (tables c')) = [Some 9]) \<and>
   (case manualGradeQuestion manual_event_example (connect (essay_db (Some (Fin 5))) None) of
      (r, c') \<Rightarrow>
        statusCode r = 200 \<and>
        map qr_score (question_responses (tables c')) = [Some (Fin 4), Some (Fin 5)] \<and>
        map s_status (submissions (tables c')) = [Graded] \<and>
        map s_total_score (submissions (tables c')) = [Some (Fin 4)])"
  by code_simp

subsection \<open>A failing store\<close>

text \<open>A refused update leaves the tables as they are; an accepted one applies its change.\<close>

lemma pool_query_update:
  "pool_query (sql_update u) c = (r, c') \<Longrightarrow>
   clock c' = clock c \<and>
   ((\<exists>e. r = Inl e) \<and> tables c' = tables c \<or> r = Inr () \<and> u (tables c) = Inr (tables c'))"
  by (auto simp: pool_query_def sql_update_def split: option.splits nat.splits sum.splits)

lemma same_but_responses_refl: "same_but_responses d d"
  by (simp add: same_but_responses_def)

lemma same_but_responses_trans:
  "same_but_responses d d' \<Longrightarrow> same_but_responses d' d'' \<Longrightarrow> same_but_responses d d''"
  unfolding same_but_responses_def by (metis db.update_convs(5) db.surjective db.select_convs)

lemma update_response_score_same:
  "update_response_score sc fb now rid d = Inr d' \<Longrightarrow> same_but_responses d d'"
  by (auto simp: same_but_responses_def update_response_score_def split: sum.splits)

text \<open>The loop over the questions writes to the table of responses only.\<close>

lemma grade_questions_same:
  "grade_questions l rows acc c = (out, c') \<Longrightarrow>
   same_but_responses (tables c) (tables c') \<and> clock c' = clock c"
proof (induction rows arbitrary: acc c)
  case Nil
  then show ?case by (cases acc) (simp add: same_but_responses_refl)
next
  case (Cons question rows)
  obtain totalScore gradingResults where acc: "acc = (totalScore, gradingResults)"
    by (cases acc)
  show ?case
  proof (cases "response_id question = None \<or> response_id question = Some 0")
    case True
    with Cons.prems acc have "\<exists>acc'. grade_questions l rows acc' c = (out, c')"
      by (auto split: option.splits)
    with Cons.IH show ?thesis by blast
  next
    case False
    then obtain rid where rid: "response_id question = Some rid" "rid \<noteq> 0"
      by auto
    show ?thesis
    proof (cases "grade_by_type l question")
      case (Inl e)
      with Cons.prems acc rid show ?thesis by (simp add: same_but_responses_refl)
    next
      case (Inr g)
      show ?thesis
      proof (cases "needsManualGrading g")
        case True
        with Cons.prems acc rid Inr have "\<exists>acc'. grade_questions l rows acc' c = (out, c')"
          by auto
        with Cons.IH show ?thesis by blast
      next
        case False
        obtain r1 c1 where
          q: "pool_query (sql_update (update_response_score (score g) (feedback g) (clock c) rid)) c =
                (r1, c1)"
          by (cases "pool_query (sql_update (update_response_score (score g) (feedback g) (clock c) rid)) c")
        from pool_query_update [OF q] have
          c1: "clock c1 = clock c" "same_but_responses (tables c) (tables c1)"
          by (auto simp: same_but_responses_refl dest: update_response_score_same)
        show ?thesis
        proof (cases r1)
          case (Inl e)
          with Cons.prems acc rid Inr False q c1 show ?thesis by auto
        next
          case (Inr u)
          with Cons.prems acc rid \<open>grade_by_type l question = Inr g\<close> False q
          have "\<exists>acc'. grade_questions l rows acc' c1 = (out, c')"
            by auto
          with Cons.IH c1 show ?thesis
            by (metis same_but_responses_trans)
        qed
      qed
    qed
  qed
qed

text \<open>A run that throws has changed at most the table of responses.\<close>

lemma gradeSubmission_try_error:
  assumes "gradeSubmission_try l event c = (Inl e, c')"
  shows "same_but_responses (tables c) (tables c')"
proof -
  from assms obtain submissionId where ev: "ev_submissionId event = Some submissionId" "submissionId \<noteq> 0"
    by (auto simp: gradeSubmission_try_def split: option.splits if_splits)
  obtain r1 c1 where q1: "pool_query (sql_select (submission_query submissionId)) c = (r1, c1)"
    by (cases "pool_query (sql_select (submission_query submissionId)) c")
  note t1 = pool_query_select [OF q1]
  show ?thesis
  proof (cases r1)
    case (Inl e1)
    with assms ev q1 t1 show ?thesis
      by (auto simp: gradeSubmission_try_def same_but_responses_refl)
  next
    case (Inr rows)
    show ?thesis
    proof (cases rows)
      case Nil
      with assms ev q1 Inr show ?thesis
        by (simp add: gradeSubmission_try_def)
    next
      case (Cons submission rest)
      with assms ev q1 Inr have ng: "status submission \<noteq> Graded"
        by (auto simp: gradeSubmission_try_def split: if_splits)
      obtain r2 c2 where
        q2: "pool_query (sql_select (questions_query submissionId (assignment_id submission))) c1 = (r2, c2)"
        by (cases "pool_query (sql_select (questions_query submissionId (assignment_id submission))) c1")
      note t2 = pool_query_select [OF q2]
      show ?thesis
      proof (cases r2)
        case (Inl e2)
        with assms ev q1 \<open>r1 = Inr rows\<close> Cons ng q2 t1 t2 show ?thesis
          by (auto simp: gradeSubmission_try_def same_but_responses_refl)
      next
        case (Inr qs)
        obtain r3 c3 where lp: "grade_questions l qs (Fin 0, []) c2 = (r3, c3)"
          by (cases "grade_questions l qs (Fin 0, []) c2")
        from grade_questions_same [OF lp] t1 t2
        have s3: "same_but_responses (tables c) (tables c3)" by simp
        show ?thesis
        proof (cases r3)
          case (Inl e3)
          with assms ev q1 \<open>r1 = Inr rows\<close> Cons ng q2 Inr lp s3 show ?thesis
            by (auto simp: gradeSubmission_try_def)
        next
          case r3: (Inr res)
          obtain totalScore gradingResults where res: "res = (totalScore, gradingResults)"
            by (cases res)
          obtain r4 c4 where
            q4: "pool_query (sql_update (finalize_submission totalScore (clock c3) submissionId)) c3 = (r4, c4)"
            by (cases "pool_query (sql_update (finalize_submission totalScore (clock c3) submissionId)) c3")
          from assms ev q1 \<open>r1 = Inr rows\<close> Cons ng q2 Inr lp r3 res q4
          have "r4 = Inl e \<and> c' = c4"
            by (auto simp: gradeSubmission_try_def Let_def split: if_splits sum.splits)
          with pool_query_update [OF q4] s3 show ?thesis by auto
        qed
      qed
    qed
  qed
qed

text \<open>
  Claim C5, as the code has it. \<^verbatim>\<open>gradeSubmission\<close> opens no transaction: each statement
  commits on its own. If the persistence layer fails at any point of a run, the caller
  receives the generic internal error (status 500), and the submission is left in its
  prior state: the table of submissions, and every table other than that of the
  responses, is unchanged. The scores written to responses before the failure are not
  rolled back.
\<close>

theorem storage_failure_keeps_submission:
  "fst (gradeSubmission_try l event c) = Inl StorageFailure \<Longrightarrow>
   fst (gradeSubmission l event c) = internal_server_error \<and>
   submissions (tables (snd (gradeSubmission l event c))) = submissions (tables c) \<and>
   same_but_responses (tables c) (tables (snd (gradeSubmission l event c)))"
proof -
  assume a: "fst (gradeSubmission_try l event c) = Inl StorageFailure"
  obtain c' where t: "gradeSubmission_try l event c = (Inl StorageFailure, c')"
    using a by (cases "gradeSubmission_try l event c") auto
  from gradeSubmission_try_error [OF t] have s: "same_but_responses (tables c) (tables c')" .
  then have "submissions (tables c') = submissions (tables c)"
    unfolding same_but_responses_def by (metis db.select_convs(1) db.surjective db.update_convs(5))
  with s t show ?thesis
    by (simp add: gradeSubmission_def)
qed

text \<open>A store that refuses the third statement, the first score write: nothing has changed.\<close>

theorem storage_failure_keeps_submission_witness:
  "fst (gradeSubmission (example_lib 1) \<lparr>ev_submissionId = Some 1\<rparr>
          (connect (quiz_db Submitted None) (Some 2))) = internal_server_error \<and>
   submissions (tables (snd (gradeSubmission (example_lib 1) \<lparr>ev_submissionId = Some 1\<rparr>
          (connect (quiz_db Submitted None) (Some 2))))) = submissions (quiz_db Submitted None)"
proof -
  have h: "fst (gradeSubmission_try (example_lib 1) \<lparr>ev_submissionId = Some 1\<rparr>
          (connect (quiz_db Submitted None) (Some 2))) = Inl StorageFailure"
    by code_simp
  have t: "tables (connect (quiz_db Submitted None) (Some 2)) = quiz_db Submitted None"
    by (simp add: connect_def)
  from storage_failure_keeps_submission [OF h] show ?thesis
    by (simp add: t)
qed

text \<open>
  The claim as the specification words it promises that no partial scores are committed.
  With two multiple-choice responses and a store that refuses the fourth statement, the
  second score write, the caller gets the internal error while the first score stays
  stored.
\<close>

theorem partial_scores_committed_counterexample:
  "fst (gradeSubmission (example_lib 1) \<lparr>ev_submissionId = Some 1\<rparr>
          (connect (quiz_db Submitted None) (Some 3))) = internal_server_error \<and>
   map qr_score (question_responses (quiz_db Submitted None)) = [None, None] \<and>
   map qr_score (question_responses (tables (snd (gradeSubmission (example_lib 1)
          \<lparr>ev_submissionId = Some 1\<rparr> (connect (quiz_db Submitted None) (Some 3)))))) =
     [Some (Fin 5), None]"
  by code_simp

subsection \<open>Finalizing a graded submission\<close>









lemma written_id [simp]:
  "qr_response_id (written now ws qr) = qr_response_id qr"
  "qr_submission_id (written now ws qr) = qr_submission_id qr"
  by (simp_all add: written_def split: option.splits)





lemma live_ids_append [simp]: "live_ids (xs @ ys) = live_ids xs @ live_ids ys"
  by (simp add: live_ids_def)

lemma live_ids_Nil [simp]: "live_ids [] = []"
  by (simp add: live_ids_def)
















end
